theory Spec2Isabelle
  imports Complex_Main "HOL-Library.AList" "HOL-Library.Sublist"
begin

section \<open>The mesh relay: data model\<close>

text \<open>
  The development follows \<^verbatim>\<open>src/components/MeshNetwork.tsx\<close> (the current revision, the
  first document of that file), \<^verbatim>\<open>ConnectionManager\<close> (the revision with the 60 second
  window) and \<^verbatim>\<open>sendEmergencyMessage\<close> of \<^verbatim>\<open>pages/Index.tsx\<close>.

  The sources also hold earlier revisions of the two components. The first \<^verbatim>\<open>MeshNetwork\<close>
  has no seen set, no route and no reconnection; the second has no \<^verbatim>\<open>connectionState\<close>, so
  \<^verbatim>\<open>connectToPeer\<close> and the reconnection timeout test only the peer id, and its error
  handler leaves the connection table alone. The earlier \<^verbatim>\<open>ConnectionManager\<close>
  doubles the delay, stops at five attempts, scans only \<^verbatim>\<open>localStorage\<close> and has no age test
  in the scan. Where a statement below depends on the revision, it says so.

  Toasts and console output are presentation and are left out. Everything else a handler
  does is either a change of the component's state or an entry of the effect log: a call
  of one of the component's props, a \<^verbatim>\<open>send\<close> on a connection, or a \<^verbatim>\<open>connect\<close> request
  to the transport.
\<close>

datatype urgency = HIGH | MEDIUM | LOW

text \<open>
  \<^verbatim>\<open>interface EmergencyMessage\<close>. The field \<^verbatim>\<open>id\<close> is called \<open>msg_id\<close> here; the
  timestamp is the instant in milliseconds, so that \<^verbatim>\<open>new Date(data.timestamp)\<close> is the
  identity on it; \<^verbatim>\<open>location\<close> is carried along and never inspected.
\<close>

record EmergencyMessage =
  msg_id :: string
  message :: string
  urgency :: urgency
  timestamp :: int
  location :: "(rat \<times> rat) option"
  senderId :: string
  route :: "string list option"

text \<open>
  What arrives on a connection is \<^verbatim>\<open>data: any\<close>. The handler only tells apart the falsy
  values, the values that are not objects, the objects without a \<^verbatim>\<open>message\<close> property and
  the objects that have one; the remaining fields of such an object are taken at the types
  the interface declares.
\<close>

datatype wire_data =
    WUndefined
  | WNull
  | WBool bool
  | WNum int
  | WStr string
  | WPlainObject
  | WEnvelope EmergencyMessage

fun truthy :: "wire_data \<Rightarrow> bool" where
  "truthy WUndefined = False"
| "truthy WNull = False"
| "truthy (WBool b) = b"
| "truthy (WNum n) = (n \<noteq> 0)"
| "truthy (WStr s) = (s \<noteq> [])"
| "truthy WPlainObject = True"
| "truthy (WEnvelope m) = True"

fun typeof_object :: "wire_data \<Rightarrow> bool" where
  "typeof_object WNull = True"
| "typeof_object WPlainObject = True"
| "typeof_object (WEnvelope m) = True"
| "typeof_object _ = False"

text \<open>\<^verbatim>\<open>data.message\<close> as a truth value: a missing property and the empty string are falsy.\<close>

fun message_truthy :: "wire_data \<Rightarrow> bool" where
  "message_truthy (WEnvelope m) = (message m \<noteq> [])"
| "message_truthy _ = False"

datatype connection_state = Initializing | Ready | Connecting | Connected | Error

text \<open>A \<^verbatim>\<open>DataConnection\<close> as the component sees it: \<^verbatim>\<open>conn.peer\<close> and \<^verbatim>\<open>conn.open\<close>.\<close>

record connection =
  conn_peer :: string
  conn_open :: bool

record NetworkTopology =
  nodes :: "(string \<times> string list) list"
  edges :: "(string \<times> string \<times> nat) list"

datatype effect =
    PeersChange "string list"
  | ConnectionChange bool
  | TopologyChange NetworkTopology
  | MessageReceived EmergencyMessage
  | PeerIdChange string
  | Send connection EmergencyMessage
  | Connect string

text \<open>
  The component is a React function component. Each render runs the function body again and
  creates new closures; a closure reads the constants \<^verbatim>\<open>messageHistory\<close> and
  \<^verbatim>\<open>connectionState\<close> of the render that created it, while the \<^verbatim>\<open>useRef\<close> cells are shared
  by all renders. A state setter never changes the value an existing closure holds
  (\<^verbatim>\<open>setMessageHistory\<close> builds a \<^verbatim>\<open>new Set\<close>). So every handler takes the values of its
  render as an explicit environment, and reads the refs from the state.
\<close>

record env =
  env_messageHistory :: "string set"
  env_connectionState :: connection_state
  env_onTopologyChange :: bool

text \<open>A pending \<^verbatim>\<open>setTimeout\<close> of \<^verbatim>\<open>scheduleReconnection\<close>: its handle, delay, and closure.\<close>

record timer =
  timer_id :: nat
  timer_delay :: nat
  timer_peer :: string
  timer_env :: env

text \<open>\<^verbatim>\<open>peerRef.current\<close>: the PeerJS object; its \<^verbatim>\<open>id\<close> is undefined until the server assigns it.\<close>

datatype peer_obj = Peer (peer_id: "string option")

text \<open>
  The refs, the React state (the value the next render will see), the timeouts
  \<^verbatim>\<open>scheduleReconnection\<close> has pending in the runtime, the number of pending timeouts that
  will run \<^verbatim>\<open>initializePeer\<close> again, the connections whose handlers \<^verbatim>\<open>setupConnection\<close> has
  installed (with the environment the handlers closed over), and the effect log. Maps are association lists in insertion order, as a JavaScript \<^verbatim>\<open>Map\<close> is.
\<close>

record mesh_state =
  peerRef :: "peer_obj option"
  connectionsRef :: "(string \<times> connection) list"
  reconnectTimeoutRef :: "(string \<times> nat) list"
  messageHistory :: "string set"
  connectionState :: connection_state
  initializationAttemptsRef :: nat
  onTopologyChange :: bool
  timers :: "timer list"
  next_timer :: nat
  reinit_pending :: nat
  installed :: "(string \<times> env) list"
  effects :: "effect list"

definition render :: "mesh_state \<Rightarrow> env" where
  "render s = \<lparr> env_messageHistory = messageHistory s,
                env_connectionState = connectionState s,
                env_onTopologyChange = onTopologyChange s \<rparr>"

definition emit :: "effect \<Rightarrow> mesh_state \<Rightarrow> mesh_state" where
  "emit e s = s\<lparr> effects := effects s @ [e] \<rparr>"

text \<open>\<^verbatim>\<open>peerRef.current?.id || ''\<close>\<close>

definition self_id :: "mesh_state \<Rightarrow> string" where
  "self_id s = (case peerRef s of
                  None \<Rightarrow> []
                | Some p \<Rightarrow> (case peer_id p of None \<Rightarrow> [] | Some i \<Rightarrow> i))"

text \<open>\<^verbatim>\<open>peerRef.current && peerId !== peerRef.current.id\<close>\<close>

definition not_self :: "mesh_state \<Rightarrow> string \<Rightarrow> bool" where
  "not_self s peerId = (case peerRef s of
                          None \<Rightarrow> False
                        | Some p \<Rightarrow> peer_id p \<noteq> Some peerId)"

section \<open>The mesh relay: operations\<close>

definition setupConnection :: "env \<Rightarrow> string \<Rightarrow> mesh_state \<Rightarrow> mesh_state" where
  "setupConnection e p s = s\<lparr> installed := installed s @ [(p, e)] \<rparr>"

definition updatePeersList :: "env \<Rightarrow> mesh_state \<Rightarrow> mesh_state" where
  "updatePeersList e s =
     (let peers = map fst (connectionsRef s);
          s1 = emit (ConnectionChange (length peers > 0)) (emit (PeersChange peers) s)
      in if length peers > 0 \<and> env_connectionState e \<noteq> Connected
           then s1\<lparr> connectionState := Connected \<rparr>
         else if length peers = 0 \<and> env_connectionState e = Connected
           then s1\<lparr> connectionState := Ready \<rparr>
         else s1)"

definition topology_of :: "mesh_state \<Rightarrow> NetworkTopology" where
  "topology_of s =
     \<lparr> nodes = [(self_id s, map fst (connectionsRef s))],
       edges = map (\<lambda>p. (self_id s, p, 1)) (map fst (connectionsRef s)) \<rparr>"

definition updateTopology :: "env \<Rightarrow> mesh_state \<Rightarrow> mesh_state" where
  "updateTopology e s =
     (if env_onTopologyChange e then emit (TopologyChange (topology_of s)) s else s)"

text \<open>
  \<^verbatim>\<open>scheduleReconnection\<close>: nothing when the map has the peer or the captured state is
  \<^verbatim>\<open>'error'\<close>; otherwise one timeout of 5000 ms, stored under the peer.
\<close>

definition scheduleReconnection :: "env \<Rightarrow> string \<Rightarrow> mesh_state \<Rightarrow> mesh_state" where
  "scheduleReconnection e peerId s =
     (if peerId \<in> fst ` set (reconnectTimeoutRef s) \<or> env_connectionState e = Error then s
      else s\<lparr> timers := timers s @
                  [\<lparr> timer_id = next_timer s, timer_delay = 5000,
                     timer_peer = peerId, timer_env = e \<rparr>],
               next_timer := Suc (next_timer s),
               reconnectTimeoutRef := AList.update peerId (next_timer s) (reconnectTimeoutRef s) \<rparr>)"

text \<open>The body of that timeout.\<close>

definition reconnect_callback :: "env \<Rightarrow> string \<Rightarrow> mesh_state \<Rightarrow> mesh_state" where
  "reconnect_callback e peerId s =
     (let s1 = (if not_self s peerId \<and> env_connectionState e = Ready
                then setupConnection e peerId (emit (Connect peerId) s) else s)
      in s1\<lparr> reconnectTimeoutRef := AList.delete peerId (reconnectTimeoutRef s1) \<rparr>)"

text \<open>\<^verbatim>\<open>clearTimeout\<close>\<close>

definition clearTimeout :: "nat \<Rightarrow> mesh_state \<Rightarrow> mesh_state" where
  "clearTimeout t s = s\<lparr> timers := filter (\<lambda>tm. timer_id tm \<noteq> t) (timers s) \<rparr>"

text \<open>\<^verbatim>\<open>conn.on('open')\<close>\<close>

definition conn_on_open :: "env \<Rightarrow> connection \<Rightarrow> mesh_state \<Rightarrow> mesh_state" where
  "conn_on_open e conn s =
     (let s1 = s\<lparr> connectionsRef := AList.update (conn_peer conn) conn (connectionsRef s) \<rparr>;
          s2 = updateTopology e (updatePeersList e s1);
          s3 = s2\<lparr> connectionState := Connected \<rparr>
      in case map_of (reconnectTimeoutRef s3) (conn_peer conn) of
           None \<Rightarrow> s3
         | Some t \<Rightarrow>
             if t \<noteq> 0
             then (clearTimeout t s3)
                    \<lparr> reconnectTimeoutRef := AList.delete (conn_peer conn) (reconnectTimeoutRef s3) \<rparr>
             else s3)"

text \<open>The forwarding loop of \<^verbatim>\<open>conn.on('data')\<close>, over the entries of the connection table.\<close>

fun forward :: "string \<Rightarrow> EmergencyMessage \<Rightarrow> (string \<times> connection) list \<Rightarrow> effect list" where
  "forward sender m [] = []"
| "forward sender m ((peerId, c) # rest) =
     (if conn_open c \<and> peerId \<noteq> sender then Send c m # forward sender m rest
      else forward sender m rest)"

text \<open>\<^verbatim>\<open>message.route || []\<close>\<close>

definition route_list :: "EmergencyMessage \<Rightarrow> string list" where
  "route_list m = (case route m of None \<Rightarrow> [] | Some r \<Rightarrow> r)"

text \<open>\<^verbatim>\<open>conn.on('data')\<close>\<close>

definition conn_on_data :: "env \<Rightarrow> connection \<Rightarrow> wire_data \<Rightarrow> mesh_state \<Rightarrow> mesh_state" where
  "conn_on_data e conn d s =
     (if truthy d \<and> typeof_object d \<and> message_truthy d then
        (case d of
           WEnvelope m \<Rightarrow>
             if msg_id m \<notin> env_messageHistory e then
               (let s1 = emit (MessageReceived m)
                           (s\<lparr> messageHistory := insert (msg_id m) (messageHistory s) \<rparr>);
                    r = route_list m
                in if self_id s \<notin> set r
                   then s1\<lparr> effects := effects s1 @
                              forward (conn_peer conn) (m\<lparr> route := Some (r @ [self_id s]) \<rparr>)
                                (connectionsRef s) \<rparr>
                   else s1)
             else s
         | _ \<Rightarrow> s)
      else s)"

text \<open>\<^verbatim>\<open>conn.on('close')\<close>\<close>

definition conn_on_close :: "env \<Rightarrow> connection \<Rightarrow> mesh_state \<Rightarrow> mesh_state" where
  "conn_on_close e conn s =
     (let s1 = s\<lparr> connectionsRef := AList.delete (conn_peer conn) (connectionsRef s) \<rparr>
      in scheduleReconnection e (conn_peer conn) (updateTopology e (updatePeersList e s1)))"

text \<open>\<^verbatim>\<open>conn.on('error')\<close>\<close>

definition conn_on_error :: "env \<Rightarrow> connection \<Rightarrow> mesh_state \<Rightarrow> mesh_state" where
  "conn_on_error e conn s =
     (let s1 = s\<lparr> connectionsRef := AList.delete (conn_peer conn) (connectionsRef s) \<rparr>
      in scheduleReconnection e (conn_peer conn) (updatePeersList e s1))"

text \<open>The imperative handle: \<^verbatim>\<open>connectToPeer\<close> and \<^verbatim>\<open>broadcastMessage\<close>.\<close>

definition connectToPeer :: "env \<Rightarrow> string \<Rightarrow> mesh_state \<Rightarrow> mesh_state" where
  "connectToPeer e peerId s =
     (if not_self s peerId \<and> env_connectionState e = Ready
      then setupConnection e peerId (emit (Connect peerId) s) else s)"

fun broadcast_sends :: "EmergencyMessage \<Rightarrow> connection list \<Rightarrow> effect list" where
  "broadcast_sends m [] = []"
| "broadcast_sends m (c # cs) =
     (if conn_open c then Send c m # broadcast_sends m cs else broadcast_sends m cs)"

definition broadcastMessage :: "EmergencyMessage \<Rightarrow> mesh_state \<Rightarrow> mesh_state" where
  "broadcastMessage m s =
     s\<lparr> effects := effects s @
          broadcast_sends (m\<lparr> route := Some [self_id s] \<rparr>) (map snd (connectionsRef s)) \<rparr>"

section \<open>The mesh relay: the component as an event loop\<close>

text \<open>
  The state after mounting: \<^verbatim>\<open>initializePeer\<close> has created the PeerJS object (no id yet),
  and \<^verbatim>\<open>Index\<close> passes an \<^verbatim>\<open>onTopologyChange\<close> prop. Timer handles are positive, as
  \<^verbatim>\<open>setTimeout\<close> returns them.
\<close>

definition initial :: mesh_state where
  "initial = \<lparr> peerRef = Some (Peer None), connectionsRef = [], reconnectTimeoutRef = [],
               messageHistory = {}, connectionState = Initializing,
               initializationAttemptsRef = 0, onTopologyChange = True,
               timers = [], next_timer = 1, reinit_pending = 0, installed = [], effects = [] \<rparr>"

text \<open>
  \<^verbatim>\<open>initializePeer\<close> is called from the mount effect (\<^verbatim>\<open>useEffect(..., [])\<close>), so the
  \<^verbatim>\<open>peer.on('connection')\<close> callback it registers calls the \<^verbatim>\<open>setupConnection\<close> of the first
  render for every inbound connection.
\<close>

definition mount_env :: env where
  "mount_env = render initial"

text \<open>\<^verbatim>\<open>peer.on('open')\<close>; PeerJS has stored the id in the peer object.\<close>

definition peer_on_open :: "string \<Rightarrow> mesh_state \<Rightarrow> mesh_state" where
  "peer_on_open i s =
     (emit (ConnectionChange False)
        (emit (PeerIdChange i) (s\<lparr> peerRef := Some (Peer (Some i)), connectionState := Ready \<rparr>)))
       \<lparr> initializationAttemptsRef := 0 \<rparr>"

text \<open>
  \<^verbatim>\<open>peer.on('disconnected')\<close>, also registered by \<^verbatim>\<open>initializePeer\<close>. The timeout that
  asks PeerJS to reconnect to the signalling server belongs to the transport; when the
  server answers, \<^verbatim>\<open>peer.on('open')\<close> fires again.
\<close>

definition peer_on_disconnected :: "env \<Rightarrow> mesh_state \<Rightarrow> mesh_state" where
  "peer_on_disconnected e s = updatePeersList e (s\<lparr> connectionState := Ready \<rparr>)"

text \<open>
  \<^verbatim>\<open>peer.on('error')\<close>: a network or server error is retried up to
  \<^verbatim>\<open>maxInitializationAttempts\<close> times by a timeout that destroys the peer and runs
  \<^verbatim>\<open>initializePeer\<close> again; every other error, and a retried one after the last attempt,
  sets the state to \<^verbatim>\<open>'error'\<close>.
\<close>

datatype peer_error = Network | ServerError | OtherError

definition maxInitializationAttempts :: nat where
  "maxInitializationAttempts = 3"

definition peer_on_error :: "peer_error \<Rightarrow> mesh_state \<Rightarrow> mesh_state" where
  "peer_on_error err s =
     (if err = Network \<or> err = ServerError then
        (if initializationAttemptsRef s < maxInitializationAttempts
         then s\<lparr> initializationAttemptsRef := Suc (initializationAttemptsRef s),
                 reinit_pending := Suc (reinit_pending s) \<rparr>
         else s\<lparr> connectionState := Error \<rparr>)
      else s\<lparr> connectionState := Error \<rparr>)"

definition initializePeer :: "mesh_state \<Rightarrow> mesh_state" where
  "initializePeer s = s\<lparr> connectionState := Initializing, peerRef := Some (Peer None) \<rparr>"

text \<open>The cleanup of the mount effect.\<close>

definition unmount :: "mesh_state \<Rightarrow> mesh_state" where
  "unmount s =
     s\<lparr> timers := filter (\<lambda>tm. timer_id tm \<notin> snd ` set (reconnectTimeoutRef s)) (timers s),
        reconnectTimeoutRef := [] \<rparr>"

text \<open>
  What can happen to the mounted component. A connection is named by the position of its
  \<^verbatim>\<open>setupConnection\<close> call; its events run the handlers of that call, with the environment
  of that call. The imperative handle is rebuilt by every render
  (\<^verbatim>\<open>useImperativeHandle\<close> without dependencies), so a call through the ref sees the
  current state.
\<close>

datatype event =
    PeerOpen string
  | PeerDisconnected
  | PeerError peer_error
  | Reinitialize
  | Unmount
  | Inbound string
  | CallConnectToPeer string
  | CallBroadcast EmergencyMessage
  | ConnOpen nat
  | ConnData nat wire_data
  | ConnClose nat
  | ConnError nat
  | Timeout nat

definition on_conn ::
  "nat \<Rightarrow> bool \<Rightarrow> (env \<Rightarrow> connection \<Rightarrow> mesh_state \<Rightarrow> mesh_state) \<Rightarrow> mesh_state \<Rightarrow> mesh_state" where
  "on_conn k is_open h s =
     (if k < length (installed s)
      then (case installed s ! k of
              (p, e) \<Rightarrow> h e \<lparr> conn_peer = p, conn_open = is_open \<rparr> s)
      else s)"

fun fire :: "event \<Rightarrow> mesh_state \<Rightarrow> mesh_state" where
  "fire (PeerOpen i) s = peer_on_open i s"
| "fire PeerDisconnected s = peer_on_disconnected mount_env s"
| "fire (PeerError err) s = peer_on_error err s"
| "fire Reinitialize s =
     (if reinit_pending s > 0 then initializePeer (s\<lparr> reinit_pending := reinit_pending s - 1 \<rparr>)
      else s)"
| "fire Unmount s = unmount s"
| "fire (Inbound p) s = setupConnection mount_env p s"
| "fire (CallConnectToPeer p) s = connectToPeer (render s) p s"
| "fire (CallBroadcast m) s = broadcastMessage m s"
| "fire (ConnOpen k) s = on_conn k True conn_on_open s"
| "fire (ConnData k d) s = on_conn k True (\<lambda>e c. conn_on_data e c d) s"
| "fire (ConnClose k) s = on_conn k False conn_on_close s"
| "fire (ConnError k) s = on_conn k False conn_on_error s"
| "fire (Timeout t) s =
     (case find (\<lambda>tm. timer_id tm = t) (timers s) of
        None \<Rightarrow> s
      | Some tm \<Rightarrow> reconnect_callback (timer_env tm) (timer_peer tm) (clearTimeout t s))"

fun run :: "event list \<Rightarrow> mesh_state \<Rightarrow> mesh_state" where
  "run [] s = s"
| "run (ev # evs) s = run evs (fire ev s)"

section \<open>Discovery: the connection manager\<close>

text \<open>
  \<^verbatim>\<open>ConnectionManager\<close>, the revision with the 60 second window. A stored value is what
  \<^verbatim>\<open>JSON.parse(storage.getItem(key) || '{}')\<close> makes of it: the parse throws, or it yields
  an object whose \<^verbatim>\<open>peerId\<close> and \<^verbatim>\<open>timestamp\<close> may be missing. The other properties of a
  presence record (\<^verbatim>\<open>status\<close>, \<^verbatim>\<open>version\<close>, \<^verbatim>\<open>capabilities\<close>) are written and never read.
\<close>

record presence =
  p_peerId :: "string option"
  p_timestamp :: "int option"

datatype stored = Unparsable | Parsed presence

text \<open>\<^verbatim>\<open>localStorage\<close> and \<^verbatim>\<open>sessionStorage\<close>: keys in the order \<^verbatim>\<open>Object.keys\<close> lists them.\<close>

type_synonym storage = "(string \<times> stored) list"

datatype discovery_state = Discovering | ConnectingPeers | ConnectedPeers | Disconnected

datatype cm_effect =
    PeerDiscovered string presence
  | ConnectionStateChange discovery_state
  | CallConnectToPeerRef string

text \<open>A pending \<^verbatim>\<open>setTimeout\<close> of \<^verbatim>\<open>attemptConnection\<close>: delay in ms and the closure's values.\<close>

record attempt_timer =
  at_delay :: rat
  at_peer :: string
  at_attempts :: nat

record cm_state =
  discoveredPeers :: "string set"
  connectionAttempts :: "(string \<times> nat) list"
  localStorage :: storage
  sessionStorage :: storage
  attempt_timers :: "attempt_timer list"
  cm_effects :: "cm_effect list"

text \<open>The values of \<^verbatim>\<open>discoveredPeers\<close> and \<^verbatim>\<open>connectionAttempts\<close> a closure of a render holds.\<close>

record cm_env =
  env_discoveredPeers :: "string set"
  env_connectionAttempts :: "(string \<times> nat) list"

definition cm_render :: "cm_state \<Rightarrow> cm_env" where
  "cm_render s = \<lparr> env_discoveredPeers = discoveredPeers s,
                   env_connectionAttempts = connectionAttempts s \<rparr>"

text \<open>\<^verbatim>\<open>connectionAttempts.get(peerId) || 0\<close>\<close>

definition attempts_of :: "cm_env \<Rightarrow> string \<Rightarrow> nat" where
  "attempts_of e peerId = (case map_of (env_connectionAttempts e) peerId of None \<Rightarrow> 0 | Some n \<Rightarrow> n)"

text \<open>
  \<^verbatim>\<open>baseDelay * Math.pow(1.5, attempts)\<close>, in milliseconds. The powers of 1.5 the guard lets
  through (exponents 0, 1, 2) are exact in binary floating point, so the rational value is
  the value the code computes.
\<close>

definition backoff_delay :: "nat \<Rightarrow> rat" where
  "backoff_delay attempts = 1000 * (3 / 2) ^ attempts"

definition maxAttempts :: nat where
  "maxAttempts = 3"

definition attemptConnection :: "cm_env \<Rightarrow> string \<Rightarrow> cm_state \<Rightarrow> cm_state" where
  "attemptConnection e peerId s =
     (let attempts = attempts_of e peerId
      in if attempts \<ge> maxAttempts then s
         else s\<lparr> attempt_timers := attempt_timers s @
                    [\<lparr> at_delay = backoff_delay attempts, at_peer = peerId,
                       at_attempts = attempts \<rparr>] \<rparr>)"

text \<open>The earlier revision: \<^verbatim>\<open>maxAttempts = 5\<close> and \<^verbatim>\<open>baseDelay * Math.pow(2, attempts)\<close>.\<close>

definition attemptConnection_earlier :: "cm_env \<Rightarrow> string \<Rightarrow> cm_state \<Rightarrow> cm_state" where
  "attemptConnection_earlier e peerId s =
     (let attempts = attempts_of e peerId
      in if attempts \<ge> 5 then s
         else s\<lparr> attempt_timers := attempt_timers s @
                    [\<lparr> at_delay = 1000 * 2 ^ attempts, at_peer = peerId,
                       at_attempts = attempts \<rparr>] \<rparr>)"

text \<open>
  The body of that timeout: the counter is set from the \<^verbatim>\<open>attempts\<close> the closure read, then
  \<^verbatim>\<open>connectToPeer\<close> is called through the ref when the ref is set.
\<close>

definition attempt_callback :: "attempt_timer \<Rightarrow> bool \<Rightarrow> cm_state \<Rightarrow> cm_state" where
  "attempt_callback tm ref_set s =
     (let s1 = s\<lparr> connectionAttempts :=
                    AList.update (at_peer tm) (at_attempts tm + 1) (connectionAttempts s) \<rparr>
      in if ref_set then s1\<lparr> cm_effects := cm_effects s1 @ [CallConnectToPeerRef (at_peer tm)] \<rparr>
         else s1)"

text \<open>\<^verbatim>\<open>announcePresence\<close>; \<open>myPeerId\<close> is what \<^verbatim>\<open>getPeerId()\<close> returned, \<^verbatim>\<open>''\<close> when there is none.\<close>

definition announcePresence :: "string \<Rightarrow> int \<Rightarrow> cm_state \<Rightarrow> cm_state" where
  "announcePresence myPeerId now s =
     (if myPeerId = [] then s
      else (let presence = Parsed \<lparr> p_peerId = Some myPeerId, p_timestamp = Some now \<rparr>
            in s\<lparr> localStorage := AList.update (''peer_'' @ myPeerId) presence (localStorage s),
                  sessionStorage :=
                    AList.update (''peer_session_'' @ myPeerId) presence (sessionStorage s) \<rparr>))"

text \<open>What both scans do with a peer they accept.\<close>

definition discover :: "cm_env \<Rightarrow> string \<Rightarrow> presence \<Rightarrow> cm_state \<Rightarrow> cm_state" where
  "discover e peerId data s =
     attemptConnection e peerId
       (s\<lparr> discoveredPeers := insert peerId (discoveredPeers s),
           cm_effects := cm_effects s @ [PeerDiscovered peerId data] \<rparr>)"

text \<open>\<^verbatim>\<open>peerId && peerId !== myPeerId && !discoveredPeers.has(peerId)\<close>\<close>

definition candidate :: "cm_env \<Rightarrow> string \<Rightarrow> presence \<Rightarrow> string option" where
  "candidate e myPeerId data =
     (case p_peerId data of
        None \<Rightarrow> None
      | Some peerId \<Rightarrow>
          if peerId \<noteq> [] \<and> peerId \<noteq> myPeerId \<and> peerId \<notin> env_discoveredPeers e
          then Some peerId else None)"

text \<open>
  The two loops of \<^verbatim>\<open>discoverPeers\<close>. Both run inside one \<^verbatim>\<open>try\<close>: a parse that throws
  ends the whole scan, which the result \<open>False\<close> records. A missing timestamp makes
  \<^verbatim>\<open>lastSeen\<close> \<^verbatim>\<open>NaN\<close>, and \<^verbatim>\<open>NaN < 60000\<close> is false.
\<close>

fun scan_local :: "cm_env \<Rightarrow> string \<Rightarrow> int \<Rightarrow> storage \<Rightarrow> cm_state \<Rightarrow> bool \<times> cm_state" where
  "scan_local e myPeerId now [] s = (True, s)"
| "scan_local e myPeerId now ((key, v) # rest) s =
     (if prefix ''peer_'' key then
        (case v of
           Unparsable \<Rightarrow> (False, s)
         | Parsed data \<Rightarrow>
             (case candidate e myPeerId data of
                None \<Rightarrow> scan_local e myPeerId now rest s
              | Some peerId \<Rightarrow>
                  (case p_timestamp data of
                     None \<Rightarrow> scan_local e myPeerId now rest s
                   | Some ts \<Rightarrow>
                       if now - ts < 60000
                       then scan_local e myPeerId now rest (discover e peerId data s)
                       else scan_local e myPeerId now rest s)))
      else scan_local e myPeerId now rest s)"

fun scan_session :: "cm_env \<Rightarrow> string \<Rightarrow> storage \<Rightarrow> cm_state \<Rightarrow> bool \<times> cm_state" where
  "scan_session e myPeerId [] s = (True, s)"
| "scan_session e myPeerId ((key, v) # rest) s =
     (if prefix ''peer_session_'' key then
        (case v of
           Unparsable \<Rightarrow> (False, s)
         | Parsed data \<Rightarrow>
             (case candidate e myPeerId data of
                None \<Rightarrow> scan_session e myPeerId rest s
              | Some peerId \<Rightarrow> scan_session e myPeerId rest (discover e peerId data s)))
      else scan_session e myPeerId rest s)"

definition discoverPeers :: "cm_env \<Rightarrow> string \<Rightarrow> int \<Rightarrow> cm_state \<Rightarrow> cm_state" where
  "discoverPeers e myPeerId now s =
     (if myPeerId = [] then s
      else (case scan_local e myPeerId now (localStorage s) s of
              (False, s1) \<Rightarrow> s1
            | (True, s1) \<Rightarrow> snd (scan_session e myPeerId (sessionStorage s) s1)))"

text \<open>
  The loops of \<^verbatim>\<open>cleanupOldPeers\<close>, over the keys the storage had when the loop began. A
  missing timestamp compares false and the record stays.
\<close>

fun sweep :: "string \<Rightarrow> int \<Rightarrow> storage \<Rightarrow> storage \<Rightarrow> bool \<times> storage" where
  "sweep pre cutoff [] st = (True, st)"
| "sweep pre cutoff ((key, v) # rest) st =
     (if prefix pre key then
        (case v of
           Unparsable \<Rightarrow> (False, st)
         | Parsed data \<Rightarrow>
             (case p_timestamp data of
                None \<Rightarrow> sweep pre cutoff rest st
              | Some ts \<Rightarrow>
                  if ts < cutoff then sweep pre cutoff rest (AList.delete key st)
                  else sweep pre cutoff rest st))
      else sweep pre cutoff rest st)"

definition cleanupOldPeers :: "int \<Rightarrow> cm_state \<Rightarrow> cm_state" where
  "cleanupOldPeers now s =
     (let cutoff = now - 60000
      in case sweep ''peer_'' cutoff (localStorage s) (localStorage s) of
           (False, ls) \<Rightarrow> s\<lparr> localStorage := ls \<rparr>
         | (True, ls) \<Rightarrow>
             s\<lparr> localStorage := ls,
                sessionStorage :=
                  snd (sweep ''peer_session_'' cutoff (sessionStorage s) (sessionStorage s)) \<rparr>)"

text \<open>The interval of \<^verbatim>\<open>startHeartbeat\<close>.\<close>

definition heartbeat :: "cm_env \<Rightarrow> string list \<Rightarrow> string \<Rightarrow> cm_state \<Rightarrow> cm_state" where
  "heartbeat e peers myPeerId s =
     (let st = (if length peers > 0 then ConnectedPeers
                else if myPeerId \<noteq> [] then
                  (if env_discoveredPeers e \<noteq> {} then ConnectingPeers else Discovering)
                else Disconnected);
          s1 = s\<lparr> cm_effects := cm_effects s @ [ConnectionStateChange st] \<rparr>
      in if length peers = 0 \<and> env_discoveredPeers e \<noteq> {}
         then s1\<lparr> connectionAttempts := [] \<rparr> else s1)"

section \<open>Originating a message\<close>

text \<open>
  \<^verbatim>\<open>sendEmergencyMessage\<close> of \<^verbatim>\<open>Index\<close>. The urgency heuristic \<^verbatim>\<open>classifyUrgency\<close> is
  presentation and is a parameter; \<open>now\<close> is \<^verbatim>\<open>Date.now()\<close>. The state \<^verbatim>\<open>peerId\<close> of
  \<^verbatim>\<open>Index\<close> is the field \<open>ix_peerId\<close>.
\<close>

record index_state =
  connectedPeers :: "string list"
  messages :: "EmergencyMessage list"
  customMessage :: string
  ix_peerId :: string
  userLocation :: "(rat \<times> rat) option"

text \<open>\<^verbatim>\<open>Date.now().toString()\<close>\<close>

definition digits :: string where
  "digits = ''0123456789''"

fun decimal :: "nat \<Rightarrow> string" where
  "decimal n = (if n < 10 then [digits ! n]
                else decimal (n div 10) @ [digits ! (n mod 10)])"

declare decimal.simps [simp del]

definition new_message ::
  "(string \<Rightarrow> urgency) \<Rightarrow> nat \<Rightarrow> string \<Rightarrow> index_state \<Rightarrow> EmergencyMessage" where
  "new_message classifyUrgency now messageText ix =
     \<lparr> msg_id = decimal now, message = messageText, urgency = classifyUrgency messageText,
       timestamp = int now, location = userLocation ix, senderId = ix_peerId ix, route = None \<rparr>"

text \<open>The second component is \<^verbatim>\<open>meshNetworkRef.current\<close>.\<close>

definition sendEmergencyMessage ::
  "(string \<Rightarrow> urgency) \<Rightarrow> nat \<Rightarrow> string \<Rightarrow> bool \<Rightarrow>
     index_state \<times> mesh_state option \<Rightarrow> index_state \<times> mesh_state option" where
  "sendEmergencyMessage classifyUrgency now messageText isCustom a =
     (case a of
        (ix, None) \<Rightarrow> (ix, None)
      | (ix, Some mesh) \<Rightarrow>
          if length (connectedPeers ix) = 0 then (ix, Some mesh)
          else (let emergencyMsg = new_message classifyUrgency now messageText ix;
                    ix1 = ix\<lparr> messages := emergencyMsg # messages ix \<rparr>;
                    mesh1 = broadcastMessage emergencyMsg mesh
                in (if isCustom then ix1\<lparr> customMessage := [] \<rparr> else ix1, Some mesh1)))"

section \<open>The two components together\<close>

text \<open>
  \<^verbatim>\<open>Index\<close> mounts both components and hands the mesh ref to the connection manager.
  \<^verbatim>\<open>startPeerDiscovery\<close> and \<^verbatim>\<open>startHeartbeat\<close> are called from the manager's mount effect,
  so the intervals they start, and the \<^verbatim>\<open>attemptConnection\<close> they reach, are closures of
  the manager's first render.
\<close>

record app =
  app_mesh :: mesh_state
  app_cm :: cm_state

definition cm_initial :: "storage \<Rightarrow> storage \<Rightarrow> cm_state" where
  "cm_initial ls ss = \<lparr> discoveredPeers = {}, connectionAttempts = [], localStorage = ls,
                        sessionStorage = ss, attempt_timers = [], cm_effects = [] \<rparr>"

definition cm_mount_env :: cm_env where
  "cm_mount_env = \<lparr> env_discoveredPeers = {}, env_connectionAttempts = [] \<rparr>"

datatype app_event =
    Mesh event
  | DiscoveryTick int
  | CleanupTick int
  | HeartbeatTick
  | AttemptTimeout nat

text \<open>
  An \<^verbatim>\<open>attemptConnection\<close> timeout is named by its position among the pending ones. Events
  of the mesh component cannot reach the manager's state, and the other way round the
  manager only calls \<^verbatim>\<open>getPeerId\<close>, \<^verbatim>\<open>getConnectedPeers\<close> and \<^verbatim>\<open>connectToPeer\<close>.
\<close>

fun app_fire :: "app_event \<Rightarrow> app \<Rightarrow> app" where
  "app_fire (Mesh ev) a = a\<lparr> app_mesh := fire ev (app_mesh a) \<rparr>"
| "app_fire (DiscoveryTick now) a =
     a\<lparr> app_cm := discoverPeers cm_mount_env (self_id (app_mesh a)) now
                    (announcePresence (self_id (app_mesh a)) now (app_cm a)) \<rparr>"
| "app_fire (CleanupTick now) a = a\<lparr> app_cm := cleanupOldPeers now (app_cm a) \<rparr>"
| "app_fire HeartbeatTick a =
     a\<lparr> app_cm := heartbeat cm_mount_env (map fst (connectionsRef (app_mesh a)))
                    (self_id (app_mesh a)) (app_cm a) \<rparr>"
| "app_fire (AttemptTimeout k) a =
     (if k < length (attempt_timers (app_cm a))
      then (let tm = attempt_timers (app_cm a) ! k;
                cm1 = (app_cm a)\<lparr> attempt_timers :=
                                     take k (attempt_timers (app_cm a)) @
                                     drop (Suc k) (attempt_timers (app_cm a)) \<rparr>
            in \<lparr> app_mesh = connectToPeer (render (app_mesh a)) (at_peer tm) (app_mesh a),
                 app_cm = attempt_callback tm True cm1 \<rparr>)
      else a)"

fun app_run :: "app_event list \<Rightarrow> app \<Rightarrow> app" where
  "app_run [] a = a"
| "app_run (ev # evs) a = app_run evs (app_fire ev a)"

section \<open>Observations\<close>

text \<open>The effects a handler added to the log.\<close>

definition emitted :: "mesh_state \<Rightarrow> mesh_state \<Rightarrow> effect list" where
  "emitted s s' = drop (length (effects s)) (effects s')"

text \<open>The ids the consumer callback \<^verbatim>\<open>onMessageReceived\<close> was called with, in order.\<close>

fun deliveries :: "effect list \<Rightarrow> string list" where
  "deliveries [] = []"
| "deliveries (MessageReceived m # es) = msg_id m # deliveries es"
| "deliveries (_ # es) = deliveries es"

text \<open>Every entry of the connection table is stored under its own \<^verbatim>\<open>conn.peer\<close>.\<close>

definition table_ok :: "mesh_state \<Rightarrow> bool" where
  "table_ok s = list_all (\<lambda>(p, c). conn_peer c = p) (connectionsRef s)"

text \<open>
  The reconnection timeouts pending in the runtime are exactly the entries of
  \<^verbatim>\<open>reconnectTimeoutRef\<close>: handles are positive, fresh and unique, and the map has one
  entry per key.
\<close>

definition timers_ok :: "mesh_state \<Rightarrow> bool" where
  "timers_ok s \<longleftrightarrow>
     distinct (map timer_id (timers s)) \<and>
     distinct (map fst (reconnectTimeoutRef s)) \<and>
     set (map (\<lambda>tm. (timer_peer tm, timer_id tm)) (timers s)) = set (reconnectTimeoutRef s) \<and>
     list_all (\<lambda>tm. 0 < timer_id tm \<and> timer_id tm < next_timer s) (timers s) \<and>
     0 < next_timer s"

text \<open>
  Every pending timeout of \<^verbatim>\<open>attemptConnection\<close> was scheduled with the counter read as 0,
  hence with the base delay, and every stored counter is 1.
\<close>

definition first_attempts_only :: "cm_state \<Rightarrow> bool" where
  "first_attempts_only s \<longleftrightarrow>
     list_all (\<lambda>tm. at_attempts tm = 0 \<and> at_delay tm = 1000) (attempt_timers s) \<and>
     list_all (\<lambda>(p, n). n = 1) (connectionAttempts s)"

text \<open>The application after mounting, with whatever the two storages hold.\<close>

definition app_initial :: "storage \<Rightarrow> storage \<Rightarrow> app" where
  "app_initial ls ss = \<lparr> app_mesh = initial, app_cm = cm_initial ls ss \<rparr>"

section \<open>Scenarios\<close>

text \<open>
  Node \<open>B\<close> has received its id and accepted inbound connections from \<open>A\<close> and \<open>C\<close>, both
  open. \<open>A\<close> originates \<open>m1\<close>; \<open>C\<close>, which is also a neighbour of \<open>A\<close>, relays it.
\<close>

definition m1 :: EmergencyMessage where
  "m1 = \<lparr> msg_id = ''m1'', message = ''help'', urgency = HIGH, timestamp = 0,
          location = None, senderId = ''A'', route = Some [''A''] \<rparr>"

definition m1_via_C :: EmergencyMessage where
  "m1_via_C = m1\<lparr> route := Some [''A'', ''C''] \<rparr>"

definition relay_setup :: "event list" where
  "relay_setup = [PeerOpen ''B'', Inbound ''A'', Inbound ''C'', ConnOpen 0, ConnOpen 1]"

definition relay_B :: mesh_state where
  "relay_B = run relay_setup initial"

definition conn_A :: connection where
  "conn_A = \<lparr> conn_peer = ''A'', conn_open = True \<rparr>"

definition conn_C :: connection where
  "conn_C = \<lparr> conn_peer = ''C'', conn_open = True \<rparr>"

text \<open>
  Node \<open>A\<close> accepts an inbound connection from \<open>X\<close>, which opens and is then lost.
\<close>

definition conn_X :: connection where
  "conn_X = \<lparr> conn_peer = ''X'', conn_open = True \<rparr>"

definition lost_link :: "app_event list" where
  "lost_link = [Mesh (PeerOpen ''A''), Mesh (Inbound ''X''), Mesh (ConnOpen 0), Mesh (ConnClose 0)]"

text \<open>
  The same, with the presence record of \<open>X\<close> in the registry and a discovery scan after the
  loss.
\<close>

definition lost_and_rediscovered :: "app_event list" where
  "lost_and_rediscovered = lost_link @ [DiscoveryTick 1000]"

text \<open>
  \<open>X\<close> has advertised itself in \<^verbatim>\<open>localStorage\<close> at time 500. Node \<open>A\<close> scans at time 1000,
  the connection attempt fires, and the connection opens.
\<close>

definition registry_X :: storage where
  "registry_X = [(''peer_X'', Parsed \<lparr> p_peerId = Some ''X'', p_timestamp = Some 500 \<rparr>)]"

definition discovered_and_opened :: "app_event list" where
  "discovered_and_opened =
     [Mesh (PeerOpen ''A''), DiscoveryTick 1000, AttemptTimeout 0, Mesh (ConnOpen 0)]"

text \<open>
  Node \<open>A\<close> connects to \<open>X\<close>; the connection fails six times in a row, and each time the
  reconnection timeout fires.
\<close>

definition six_failures :: "event list" where
  "six_failures =
     [PeerOpen ''A'', CallConnectToPeer ''X'',
      ConnError 0, Timeout 1, ConnError 1, Timeout 2, ConnError 2, Timeout 3,
      ConnError 3, Timeout 4, ConnError 4, Timeout 5, ConnError 5, Timeout 6]"

text \<open>
  Node \<open>A\<close> is connected to \<open>X\<close>, loses and regains the signalling server, and is asked to
  connect to \<open>X\<close> again.
\<close>

definition connect_again :: "event list" where
  "connect_again =
     [PeerOpen ''A'', CallConnectToPeer ''X'', ConnOpen 0, PeerDisconnected, PeerOpen ''A'',
      CallConnectToPeer ''X'']"

text \<open>
  A freshly mounted \<^verbatim>\<open>Index\<close> whose mesh component has its id and no connection, and one
  whose peer list names \<open>X\<close> while the table entry of \<open>X\<close> is no longer open.
\<close>

definition index_alone :: index_state where
  "index_alone = \<lparr> connectedPeers = [], messages = [], customMessage = ''fire'',
                   ix_peerId = ''A'', userLocation = None \<rparr>"

definition mesh_alone :: mesh_state where
  "mesh_alone = run [PeerOpen ''A''] initial"

definition mesh_closing :: mesh_state where
  "mesh_closing = mesh_alone\<lparr> connectionsRef := [(''X'', \<lparr> conn_peer = ''X'', conn_open = False \<rparr>)] \<rparr>"

text \<open>
  The session storage still holds the record of an earlier session \<open>X\<close>, written at time 0;
  the same record is in the local storage. Node \<open>A\<close> scans at time 100000, when the record
  is 100 seconds old.
\<close>

definition stale_X :: storage where
  "stale_X = [(''peer_session_X'', Parsed \<lparr> p_peerId = Some ''X'', p_timestamp = Some 0 \<rparr>)]"

definition stale_local_X :: storage where
  "stale_local_X = [(''peer_X'', Parsed \<lparr> p_peerId = Some ''X'', p_timestamp = Some 0 \<rparr>)]"

text \<open>
  \<open>X\<close> has advertised itself at time 500 and cannot be connected to. Node \<open>A\<close> scans every
  three seconds, and after each scan the connection attempt it scheduled fires; a seventh
  scan follows the sixth attempt.
\<close>

definition six_scans :: "app_event list" where
  "six_scans =
     [Mesh (PeerOpen ''A''),
      DiscoveryTick 1000, AttemptTimeout 0, DiscoveryTick 4000, AttemptTimeout 0,
      DiscoveryTick 7000, AttemptTimeout 0, DiscoveryTick 10000, AttemptTimeout 0,
      DiscoveryTick 13000, AttemptTimeout 0, DiscoveryTick 16000, AttemptTimeout 0,
      DiscoveryTick 19000]"

section \<open>Auxiliary facts\<close>

subsection \<open>Forwarding\<close>


lemma Send_in_forward:
  "Send c m' \<in> set (forward f m tbl) \<longleftrightarrow> m' = m \<and> (\<exists>p. (p, c) \<in> set tbl \<and> conn_open c \<and> p \<noteq> f)"
  by (induction f m tbl rule: forward.induct) auto

lemma Send_in_broadcast_sends:
  "Send c m' \<in> set (broadcast_sends m cs) \<longleftrightarrow> m' = m \<and> c \<in> set cs \<and> conn_open c"
  by (induction m cs rule: broadcast_sends.induct) auto

lemma emitted_conn_on_data:
  "emitted s (conn_on_data e conn d s) = [] \<or>
   (\<exists>m. d = WEnvelope m \<and>
      (emitted s (conn_on_data e conn d s) = [MessageReceived m] \<and> self_id s \<in> set (route_list m) \<or>
       emitted s (conn_on_data e conn d s) =
         MessageReceived m #
         forward (conn_peer conn) (m\<lparr> route := Some (route_list m @ [self_id s]) \<rparr>) (connectionsRef s)
       \<and> self_id s \<notin> set (route_list m)))"
  by (cases d) (auto simp: conn_on_data_def emit_def emitted_def Let_def)

lemma relay_B_eval:
  "relay_B = \<lparr> peerRef = Some (Peer (Some ''B'')),
               connectionsRef = [(''A'', conn_A), (''C'', conn_C)],
               reconnectTimeoutRef = [], messageHistory = {}, connectionState = Connected,
               initializationAttemptsRef = 0, onTopologyChange = True, timers = [],
               next_timer = 1, reinit_pending = 0,
               installed = [(''A'', mount_env), (''C'', mount_env)],
               effects = [PeerIdChange ''B'', ConnectionChange False,
                          PeersChange [''A''], ConnectionChange True,
                          TopologyChange \<lparr>nodes = [(''B'', [''A''])], edges = [(''B'', ''A'', 1)]\<rparr>,
                          PeersChange [''A'', ''C''], ConnectionChange True,
                          TopologyChange \<lparr>nodes = [(''B'', [''A'', ''C''])],
                                           edges = [(''B'', ''A'', 1), (''B'', ''C'', 1)]\<rparr>] \<rparr>"
  by (simp add: relay_B_def relay_setup_def initial_def mount_env_def render_def peer_on_open_def
      emit_def setupConnection_def on_conn_def conn_on_open_def updatePeersList_def
      updateTopology_def topology_of_def self_id_def conn_A_def conn_C_def Let_def)

lemma deliveries_append: "deliveries (xs @ ys) = deliveries xs @ deliveries ys"
  by (induction xs rule: deliveries.induct) simp_all

lemma deliveries_forward: "deliveries (forward f m tbl) = []"
  by (induction f m tbl rule: forward.induct) simp_all

lemma delivery_ignores_current_history:
  "deliveries (emitted s (conn_on_data e conn (WEnvelope m) s)) =
     (if message m \<noteq> [] \<and> msg_id m \<notin> env_messageHistory e then [msg_id m] else [])"
  by (simp add: conn_on_data_def emitted_def emit_def Let_def deliveries_forward)

subsection \<open>The connection table\<close>

lemma table_ok_update:
  "conn_peer c = k \<Longrightarrow> list_all (\<lambda>(p, c). conn_peer c = p) tbl \<Longrightarrow>
   list_all (\<lambda>(p, c). conn_peer c = p) (AList.update k c tbl)"
  by (induction tbl) auto

lemma table_ok_delete:
  "list_all (\<lambda>(p, c). conn_peer c = p) tbl \<Longrightarrow>
   list_all (\<lambda>(p, c). conn_peer c = p) (AList.delete k tbl)"
  by (simp add: AList.delete_eq list_all_iff)

lemma connectionsRef_simps [simp]:
  "connectionsRef (updatePeersList e s) = connectionsRef s"
  "connectionsRef (updateTopology e s) = connectionsRef s"
  "connectionsRef (scheduleReconnection e p s) = connectionsRef s"
  "connectionsRef (conn_on_data e c d s) = connectionsRef s"
  "connectionsRef (connectToPeer e p s) = connectionsRef s"
  "connectionsRef (reconnect_callback e p s) = connectionsRef s"
  "connectionsRef (clearTimeout t s) = connectionsRef s"
  by (simp_all add: updatePeersList_def updateTopology_def scheduleReconnection_def
      conn_on_data_def connectToPeer_def reconnect_callback_def clearTimeout_def
      setupConnection_def emit_def Let_def split: wire_data.split)

lemma connectionsRef_conn_on_open:
  "connectionsRef (conn_on_open e c s) = AList.update (conn_peer c) c (connectionsRef s)"
  by (simp add: conn_on_open_def clearTimeout_def Let_def split: option.split)

lemma table_ok_fire: "table_ok s \<Longrightarrow> table_ok (fire ev s)"
proof (cases ev)
  case (ConnOpen k)
  assume "table_ok s"
  then show ?thesis
    by (simp add: ConnOpen on_conn_def table_ok_def connectionsRef_conn_on_open
        table_ok_update split: prod.split)
next
  case (ConnClose k)
  assume "table_ok s"
  then show ?thesis
    by (simp add: ConnClose on_conn_def table_ok_def conn_on_close_def table_ok_delete
        split: prod.split)
next
  case (ConnError k)
  assume "table_ok s"
  then show ?thesis
    by (simp add: ConnError on_conn_def table_ok_def conn_on_error_def table_ok_delete
        split: prod.split)
next
  case (Timeout t)
  assume "table_ok s"
  then show ?thesis by (simp add: Timeout table_ok_def split: option.split)
qed (simp_all add: table_ok_def peer_on_open_def peer_on_disconnected_def peer_on_error_def
       initializePeer_def unmount_def setupConnection_def broadcastMessage_def emit_def
       on_conn_def split: prod.split)

lemma table_ok_run: "table_ok s \<Longrightarrow> table_ok (run evs s)"
  by (induction evs arbitrary: s) (simp_all add: table_ok_fire)

lemma table_ok_reachable: "table_ok (run evs initial)"
  by (rule table_ok_run) (simp add: table_ok_def initial_def)

subsection \<open>Reconnection timers\<close>

lemma update_fresh_key:
  "k \<notin> fst ` set al \<Longrightarrow> AList.update k v al = al @ [(k, v)]"
  by (induction al) auto

lemma timers_ok_cong:
  "timers s' = timers s \<Longrightarrow> reconnectTimeoutRef s' = reconnectTimeoutRef s \<Longrightarrow>
   next_timer s' = next_timer s \<Longrightarrow> timers_ok s' = timers_ok s"
  by (simp add: timers_ok_def)

lemma updatePeersList_timers [simp]:
  "timers (updatePeersList e s) = timers s"
  "reconnectTimeoutRef (updatePeersList e s) = reconnectTimeoutRef s"
  "next_timer (updatePeersList e s) = next_timer s"
  by (simp_all add: updatePeersList_def emit_def Let_def)

lemma updateTopology_timers [simp]:
  "timers (updateTopology e s) = timers s"
  "reconnectTimeoutRef (updateTopology e s) = reconnectTimeoutRef s"
  "next_timer (updateTopology e s) = next_timer s"
  by (simp_all add: updateTopology_def emit_def)

lemma timers_ok_imp_one_per_peer:
  assumes "timers_ok s"
  shows "distinct (map timer_peer (timers s))"
proof -
  from assms have ids: "distinct (map timer_id (timers s))"
    and keys: "distinct (map fst (reconnectTimeoutRef s))"
    and eq: "set (map (\<lambda>tm. (timer_peer tm, timer_id tm)) (timers s)) = set (reconnectTimeoutRef s)"
    by (simp_all add: timers_ok_def)
  have "inj_on timer_peer (set (timers s))"
  proof (rule inj_onI)
    fix a b
    assume a: "a \<in> set (timers s)" and b: "b \<in> set (timers s)"
      and p: "timer_peer a = timer_peer b"
    from a eq have "(timer_peer a, timer_id a) \<in> set (reconnectTimeoutRef s)" by force
    moreover from b eq have "(timer_peer b, timer_id b) \<in> set (reconnectTimeoutRef s)" by force
    ultimately have "timer_id a = timer_id b"
      using keys p by (metis eq_key_imp_eq_value)
    with ids a b show "a = b"
      by (meson distinct_map inj_onD)
  qed
  moreover from ids have "distinct (timers s)" by (simp add: distinct_map)
  ultimately show ?thesis by (simp add: distinct_map)
qed

lemma timer_peers_are_keys:
  "timers_ok s \<Longrightarrow> timer_peer ` set (timers s) = fst ` set (reconnectTimeoutRef s)"
proof -
  assume "timers_ok s"
  then have "set (map (\<lambda>tm. (timer_peer tm, timer_id tm)) (timers s)) = set (reconnectTimeoutRef s)"
    by (simp add: timers_ok_def)
  then have "fst ` set (map (\<lambda>tm. (timer_peer tm, timer_id tm)) (timers s)) = fst ` set (reconnectTimeoutRef s)"
    by simp
  then show ?thesis by (simp add: image_image)
qed

lemma scheduleReconnection_noop:
  "timers_ok s \<Longrightarrow> peerId \<in> timer_peer ` set (timers s) \<Longrightarrow> scheduleReconnection e peerId s = s"
  by (simp add: scheduleReconnection_def timer_peers_are_keys)

lemma timers_ok_scheduleReconnection:
  assumes "timers_ok s"
  shows "timers_ok (scheduleReconnection e peerId s)"
proof (cases "peerId \<in> fst ` set (reconnectTimeoutRef s) \<or> env_connectionState e = Error")
  case True
  then show ?thesis using assms by (simp add: scheduleReconnection_def)
next
  case False
  then have fresh: "peerId \<notin> fst ` set (reconnectTimeoutRef s)" by simp
  from fresh have upd: "AList.update peerId (next_timer s) (reconnectTimeoutRef s)
      = reconnectTimeoutRef s @ [(peerId, next_timer s)]"
    by (rule update_fresh_key)
  have "next_timer s \<notin> timer_id ` set (timers s)"
    using assms by (auto simp: timers_ok_def list_all_iff)
  with False assms fresh show ?thesis
    unfolding scheduleReconnection_def timers_ok_def
    by (auto simp: upd list_all_iff)
qed

lemma filter_timer_id:
  assumes "distinct (map timer_id tms)" and "tm \<in> set tms"
  shows "set (filter (\<lambda>x. timer_id x \<noteq> timer_id tm) tms) = set tms - {tm}"
proof -
  from assms(1) have inj: "inj_on timer_id (set tms)" by (simp add: distinct_map)
  have "\<And>x. x \<in> set tms \<Longrightarrow> (timer_id x \<noteq> timer_id tm) = (x \<noteq> tm)"
    using inj assms(2) by (meson inj_onD)
  then show ?thesis by (simp add: set_eq_iff) blast
qed

lemma timers_ok_cancel:
  assumes ok: "timers_ok s" and tm: "tm \<in> set (timers s)"
    and s': "timers s' = filter (\<lambda>x. timer_id x \<noteq> timer_id tm) (timers s)"
            "reconnectTimeoutRef s' = AList.delete (timer_peer tm) (reconnectTimeoutRef s)"
            "next_timer s' = next_timer s"
  shows "timers_ok s'"
proof -
  from ok have ids: "distinct (map timer_id (timers s))"
    and keys: "distinct (map fst (reconnectTimeoutRef s))"
    and eq: "set (map (\<lambda>tm. (timer_peer tm, timer_id tm)) (timers s)) = set (reconnectTimeoutRef s)"
    and rng: "list_all (\<lambda>tm. 0 < timer_id tm \<and> timer_id tm < next_timer s) (timers s)"
    and nxt: "0 < next_timer s"
    by (simp_all add: timers_ok_def)
  have peers: "distinct (map timer_peer (timers s))" using ok by (rule timers_ok_imp_one_per_peer)
  then have inj: "inj_on timer_peer (set (timers s))" by (simp add: distinct_map)
  let ?rest = "filter (\<lambda>x. timer_id x \<noteq> timer_id tm) (timers s)"
  let ?pair = "\<lambda>tm. (timer_peer tm, timer_id tm)"
  have rest: "set ?rest = set (timers s) - {tm}" using ids tm by (rule filter_timer_id)
  have del: "set (AList.delete (timer_peer tm) (reconnectTimeoutRef s))
             = {x \<in> set (reconnectTimeoutRef s). fst x \<noteq> timer_peer tm}"
    by (auto simp: AList.delete_eq)
  have other: "\<And>y. y \<in> set (timers s) \<Longrightarrow> (timer_peer y \<noteq> timer_peer tm) = (y \<noteq> tm)"
    using inj tm by (meson inj_onD)
  have "?pair ` (set (timers s) - {tm}) = {x \<in> ?pair ` set (timers s). fst x \<noteq> timer_peer tm}"
  proof (rule set_eqI, rule iffI)
    fix x assume "x \<in> ?pair ` (set (timers s) - {tm})"
    then obtain y where "y \<in> set (timers s)" "y \<noteq> tm" "x = ?pair y" by blast
    then show "x \<in> {x \<in> ?pair ` set (timers s). fst x \<noteq> timer_peer tm}"
      using other by simp
  next
    fix x assume "x \<in> {x \<in> ?pair ` set (timers s). fst x \<noteq> timer_peer tm}"
    then obtain y where "y \<in> set (timers s)" "x = ?pair y" "fst x \<noteq> timer_peer tm" by blast
    then show "x \<in> ?pair ` (set (timers s) - {tm})" using other by simp
  qed
  with eq rest del have "set (map ?pair ?rest)
        = set (AList.delete (timer_peer tm) (reconnectTimeoutRef s))"
    by simp
  moreover have "distinct (map timer_id ?rest)" using ids by (rule distinct_map_filter)
  moreover have "distinct (map fst (AList.delete (timer_peer tm) (reconnectTimeoutRef s)))"
    using keys by (rule AList.distinct_delete)
  moreover have "list_all (\<lambda>tm. 0 < timer_id tm \<and> timer_id tm < next_timer s) ?rest"
    using rng by (simp add: list_all_iff)
  ultimately show ?thesis using nxt unfolding timers_ok_def s' by blast
qed

lemma timer_of_entry:
  assumes "timers_ok s" and "map_of (reconnectTimeoutRef s) p = Some t"
  obtains tm where "tm \<in> set (timers s)" "timer_peer tm = p" "timer_id tm = t" "t \<noteq> 0"
proof -
  from assms(2) have "(p, t) \<in> set (reconnectTimeoutRef s)" by (rule map_of_SomeD)
  with assms(1) have "(p, t) \<in> (\<lambda>tm. (timer_peer tm, timer_id tm)) ` set (timers s)"
    by (simp add: timers_ok_def)
  then obtain tm where tm: "tm \<in> set (timers s)" "timer_peer tm = p" "timer_id tm = t" by blast
  from assms(1) tm(1) have "0 < timer_id tm" by (simp add: timers_ok_def list_all_iff)
  with tm that show thesis by simp
qed

lemma conn_on_open_fields:
  "timers (conn_on_open e c s) =
     (case map_of (reconnectTimeoutRef s) (conn_peer c) of
        None \<Rightarrow> timers s
      | Some t \<Rightarrow> if t \<noteq> 0 then filter (\<lambda>x. timer_id x \<noteq> t) (timers s) else timers s)"
  "reconnectTimeoutRef (conn_on_open e c s) =
     (case map_of (reconnectTimeoutRef s) (conn_peer c) of
        None \<Rightarrow> reconnectTimeoutRef s
      | Some t \<Rightarrow> if t \<noteq> 0 then AList.delete (conn_peer c) (reconnectTimeoutRef s)
                  else reconnectTimeoutRef s)"
  "next_timer (conn_on_open e c s) = next_timer s"
  by (simp_all add: conn_on_open_def clearTimeout_def Let_def split: option.split)

lemma timers_ok_conn_on_open:
  assumes ok: "timers_ok s"
  shows "timers_ok (conn_on_open e c s)"
proof (cases "map_of (reconnectTimeoutRef s) (conn_peer c)")
  case None
  then show ?thesis using ok timers_ok_cong [of "conn_on_open e c s" s]
    by (simp add: conn_on_open_fields)
next
  case (Some t)
  with ok obtain tm where tm: "tm \<in> set (timers s)" "timer_peer tm = conn_peer c"
      "timer_id tm = t" "t \<noteq> 0"
    by (rule timer_of_entry)
  show ?thesis
    by (rule timers_ok_cancel [OF ok tm(1)]) (simp_all add: conn_on_open_fields Some tm)
qed

lemma conn_on_open_cancels:
  assumes ok: "timers_ok s"
  shows "conn_peer c \<notin> timer_peer ` set (timers (conn_on_open e c s))"
    and "conn_peer c \<notin> fst ` set (reconnectTimeoutRef (conn_on_open e c s))"
proof -
  show k: "conn_peer c \<notin> fst ` set (reconnectTimeoutRef (conn_on_open e c s))"
  proof (cases "map_of (reconnectTimeoutRef s) (conn_peer c)")
    case None
    then have "conn_peer c \<notin> fst ` set (reconnectTimeoutRef s)"
      by (simp add: map_of_eq_None_iff)
    with None show ?thesis by (simp add: conn_on_open_fields)
  next
    case (Some t)
    with ok obtain tm where "t \<noteq> 0" by (rule timer_of_entry)
    with Some show ?thesis by (simp add: conn_on_open_fields AList.delete_notin_dom)
  qed
  from ok have "timers_ok (conn_on_open e c s)" by (rule timers_ok_conn_on_open)
  then have "timer_peer ` set (timers (conn_on_open e c s))
      = fst ` set (reconnectTimeoutRef (conn_on_open e c s))"
    by (rule timer_peers_are_keys)
  with k show "conn_peer c \<notin> timer_peer ` set (timers (conn_on_open e c s))" by simp
qed

lemma scheduleReconnection_after [simp]:
  "timers (scheduleReconnection e p (updatePeersList e' s)) = timers (scheduleReconnection e p s)"
  "reconnectTimeoutRef (scheduleReconnection e p (updatePeersList e' s)) = reconnectTimeoutRef (scheduleReconnection e p s)"
  "next_timer (scheduleReconnection e p (updatePeersList e' s)) = next_timer (scheduleReconnection e p s)"
  "timers (scheduleReconnection e p (updateTopology e' s)) = timers (scheduleReconnection e p s)"
  "reconnectTimeoutRef (scheduleReconnection e p (updateTopology e' s)) = reconnectTimeoutRef (scheduleReconnection e p s)"
  "next_timer (scheduleReconnection e p (updateTopology e' s)) = next_timer (scheduleReconnection e p s)"
  by (simp_all add: scheduleReconnection_def)

lemma timers_ok_conn_on_close: "timers_ok s \<Longrightarrow> timers_ok (conn_on_close e c s)"
proof -
  assume ok: "timers_ok s"
  have "timers_ok (conn_on_close e c s) = timers_ok (scheduleReconnection e (conn_peer c) s)"
    by (rule timers_ok_cong) (simp_all add: conn_on_close_def scheduleReconnection_def)
  with ok show ?thesis by (simp add: timers_ok_scheduleReconnection)
qed

lemma timers_ok_conn_on_error: "timers_ok s \<Longrightarrow> timers_ok (conn_on_error e c s)"
proof -
  assume ok: "timers_ok s"
  have "timers_ok (conn_on_error e c s) = timers_ok (scheduleReconnection e (conn_peer c) s)"
    by (rule timers_ok_cong) (simp_all add: conn_on_error_def scheduleReconnection_def)
  with ok show ?thesis by (simp add: timers_ok_scheduleReconnection)
qed

lemma timers_ok_conn_on_data: "timers_ok (conn_on_data e c d s) = timers_ok s"
  by (rule timers_ok_cong)
     (simp_all add: conn_on_data_def emit_def Let_def split: wire_data.split)

lemma timers_ok_connectToPeer: "timers_ok (connectToPeer e p s) = timers_ok s"
  by (rule timers_ok_cong) (simp_all add: connectToPeer_def setupConnection_def emit_def)

lemma timers_ok_timeout:
  assumes ok: "timers_ok s" and f: "find (\<lambda>tm. timer_id tm = t) (timers s) = Some tm"
  shows "timers_ok (reconnect_callback (timer_env tm) (timer_peer tm) (clearTimeout t s))"
proof -
  from f have tm: "tm \<in> set (timers s)" "timer_id tm = t"
    by (auto simp: find_Some_iff)
  show ?thesis
    by (rule timers_ok_cancel [OF ok tm(1)])
       (simp_all add: reconnect_callback_def clearTimeout_def setupConnection_def emit_def tm)
qed

lemma timers_ok_unmount:
  assumes "timers_ok s"
  shows "timers_ok (unmount s)"
proof -
  from assms have eq:
    "(\<lambda>tm. (timer_peer tm, timer_id tm)) ` set (timers s) = set (reconnectTimeoutRef s)"
    and nxt: "0 < next_timer s"
    by (simp_all add: timers_ok_def)
  have "\<And>tm. tm \<in> set (timers s) \<Longrightarrow> timer_id tm \<in> snd ` set (reconnectTimeoutRef s)"
  proof -
    fix tm assume "tm \<in> set (timers s)"
    then have "(timer_peer tm, timer_id tm) \<in> set (reconnectTimeoutRef s)"
      using eq by blast
    then show "timer_id tm \<in> snd ` set (reconnectTimeoutRef s)" by force
  qed
  then have "filter (\<lambda>tm. timer_id tm \<notin> snd ` set (reconnectTimeoutRef s)) (timers s) = []"
    by (simp add: filter_empty_conv)
  then show ?thesis using nxt by (simp add: unmount_def timers_ok_def)
qed

lemma timers_ok_fire: "timers_ok s \<Longrightarrow> timers_ok (fire ev s)"
proof (cases ev)
  case (PeerOpen i)
  assume "timers_ok s"
  moreover have "timers_ok (fire ev s) = timers_ok s"
    by (rule timers_ok_cong) (simp_all add: PeerOpen peer_on_open_def emit_def)
  ultimately show ?thesis by simp
next
  case PeerDisconnected
  assume "timers_ok s"
  moreover have "timers_ok (fire ev s) = timers_ok s"
    by (rule timers_ok_cong) (simp_all add: PeerDisconnected peer_on_disconnected_def)
  ultimately show ?thesis by simp
next
  case (PeerError err)
  assume "timers_ok s"
  moreover have "timers_ok (fire ev s) = timers_ok s"
    by (rule timers_ok_cong) (simp_all add: PeerError peer_on_error_def)
  ultimately show ?thesis by simp
next
  case Reinitialize
  assume "timers_ok s"
  moreover have "timers_ok (fire ev s) = timers_ok s"
    by (rule timers_ok_cong) (simp_all add: Reinitialize initializePeer_def)
  ultimately show ?thesis by simp
next
  case Unmount
  assume "timers_ok s"
  then show ?thesis by (simp add: Unmount timers_ok_unmount)
next
  case (Inbound p)
  assume "timers_ok s"
  moreover have "timers_ok (fire ev s) = timers_ok s"
    by (rule timers_ok_cong) (simp_all add: Inbound setupConnection_def)
  ultimately show ?thesis by simp
next
  case (CallConnectToPeer p)
  assume "timers_ok s"
  then show ?thesis by (simp add: CallConnectToPeer timers_ok_connectToPeer)
next
  case (CallBroadcast m)
  assume "timers_ok s"
  moreover have "timers_ok (fire ev s) = timers_ok s"
    by (rule timers_ok_cong) (simp_all add: CallBroadcast broadcastMessage_def)
  ultimately show ?thesis by simp
next
  case (ConnOpen k)
  assume "timers_ok s"
  then show ?thesis
    by (simp add: ConnOpen on_conn_def timers_ok_conn_on_open split: prod.split)
next
  case (ConnData k d)
  assume "timers_ok s"
  then show ?thesis
    by (simp add: ConnData on_conn_def timers_ok_conn_on_data split: prod.split)
next
  case (ConnClose k)
  assume "timers_ok s"
  then show ?thesis
    by (simp add: ConnClose on_conn_def timers_ok_conn_on_close split: prod.split)
next
  case (ConnError k)
  assume "timers_ok s"
  then show ?thesis
    by (simp add: ConnError on_conn_def timers_ok_conn_on_error split: prod.split)
next
  case (Timeout t)
  assume "timers_ok s"
  then show ?thesis
    by (simp add: Timeout timers_ok_timeout split: option.split)
qed

lemma timers_ok_run: "timers_ok s \<Longrightarrow> timers_ok (run evs s)"
  by (induction evs arbitrary: s) (simp_all add: timers_ok_fire)

lemma timers_ok_initial: "timers_ok initial"
  by (simp add: timers_ok_def initial_def)

lemma timers_ok_app_fire: "timers_ok (app_mesh a) \<Longrightarrow> timers_ok (app_mesh (app_fire ev a))"
  by (cases ev) (simp_all add: timers_ok_fire timers_ok_connectToPeer Let_def)

lemma timers_ok_app_run: "timers_ok (app_mesh a) \<Longrightarrow> timers_ok (app_mesh (app_run evs a))"
  by (induction evs arbitrary: a) (simp_all add: timers_ok_app_fire)

lemma timers_ok_reachable: "timers_ok (app_mesh (app_run evs (app_initial ls ss)))"
  by (rule timers_ok_app_run) (simp add: app_initial_def timers_ok_initial)

subsection \<open>Broadcast and backoff\<close>

lemma broadcast_sends_none:
  "list_all (\<lambda>c. \<not> conn_open c) cs \<Longrightarrow> broadcast_sends m cs = []"
  by (induction m cs rule: broadcast_sends.induct) auto

lemma backoff_delay_mono: "a \<le> b \<Longrightarrow> backoff_delay a \<le> backoff_delay b"
  by (simp add: backoff_delay_def power_increasing)

lemma attempt_backoff_earlier:
  "(attempts_of e peerId \<ge> 5 \<longrightarrow> attemptConnection_earlier e peerId s = s)
   \<and> (attempts_of e peerId < 5 \<longrightarrow>
        attempt_timers (attemptConnection_earlier e peerId s) =
          attempt_timers s @
            [\<lparr> at_delay = 1000 * 2 ^ attempts_of e peerId, at_peer = peerId,
               at_attempts = attempts_of e peerId \<rparr>])"
  by (simp add: attemptConnection_earlier_def Let_def)

subsection \<open>Connection attempts\<close>

text \<open>
  What one call of \<^verbatim>\<open>attemptConnection\<close> does with the counter it reads, what the
  timeout stores, and the delay of \<^verbatim>\<open>scheduleReconnection\<close>.
\<close>

lemma attemptConnection_per_call:
  "maxAttempts = 3
   \<and> (attempts_of e peerId \<ge> maxAttempts \<longrightarrow> attemptConnection e peerId s = s)
   \<and> (attempts_of e peerId < maxAttempts \<longrightarrow>
        attemptConnection e peerId s =
          s\<lparr> attempt_timers := attempt_timers s @
               [\<lparr> at_delay = 1000 * (3 / 2) ^ attempts_of e peerId, at_peer = peerId,
                  at_attempts = attempts_of e peerId \<rparr>] \<rparr>)
   \<and> map_of (connectionAttempts (attempt_callback tm ref_set s)) (at_peer tm)
        = Some (at_attempts tm + 1)
   \<and> (a \<le> b \<longrightarrow> backoff_delay a \<le> backoff_delay b)
   \<and> (a < maxAttempts \<longrightarrow> backoff_delay a \<le> 2250)
   \<and> (p \<notin> fst ` set (reconnectTimeoutRef m) \<and> env_connectionState me \<noteq> Error \<longrightarrow>
        map timer_delay (timers (scheduleReconnection me p m)) = map timer_delay (timers m) @ [5000])"
proof (intro conjI impI)
  show "maxAttempts = 3" by (simp add: maxAttempts_def)
  show "attempts_of e peerId \<ge> maxAttempts \<Longrightarrow> attemptConnection e peerId s = s"
    by (simp add: attemptConnection_def)
  show "attempts_of e peerId < maxAttempts \<Longrightarrow>
        attemptConnection e peerId s =
          s\<lparr> attempt_timers := attempt_timers s @
               [\<lparr> at_delay = 1000 * (3 / 2) ^ attempts_of e peerId, at_peer = peerId,
                  at_attempts = attempts_of e peerId \<rparr>] \<rparr>"
    by (simp add: attemptConnection_def backoff_delay_def Let_def)
  show "map_of (connectionAttempts (attempt_callback tm ref_set s)) (at_peer tm)
        = Some (at_attempts tm + 1)"
    by (simp add: attempt_callback_def Let_def AList.update_conv')
  show "a \<le> b \<Longrightarrow> backoff_delay a \<le> backoff_delay b" by (rule backoff_delay_mono)
  show "a < maxAttempts \<Longrightarrow> backoff_delay a \<le> 2250"
  proof -
    assume "a < maxAttempts"
    then have "a \<le> 2" by (simp add: maxAttempts_def)
    then have "backoff_delay a \<le> backoff_delay 2" by (rule backoff_delay_mono)
    also have "backoff_delay 2 = 2250" by (simp add: backoff_delay_def power2_eq_square)
    finally show ?thesis .
  qed
  show "p \<notin> fst ` set (reconnectTimeoutRef m) \<and> env_connectionState me \<noteq> Error \<Longrightarrow>
        map timer_delay (timers (scheduleReconnection me p m)) = map timer_delay (timers m) @ [5000]"
    by (simp add: scheduleReconnection_def)
qed

text \<open>
  The retry after a lost link: a connection to \<open>X\<close> that fails six times in a row is
  requested seven times, and the first and the last retry wait the same 5000 ms.
\<close>

lemma reconnection_has_no_cap:
  "length (filter (\<lambda>x. x = Connect ''X'') (effects (run six_failures initial))) = 7 \<and>
   map timer_delay (timers (run (take 3 six_failures) initial)) = [5000] \<and>
   map timer_delay (timers (run (take 13 six_failures) initial)) = [5000]"
  by code_simp

text \<open>
  The closures of the first render read the counter as 0, so the pending attempts and the
  stored counters never get past the first step.
\<close>

lemma list_all_update:
  "list_all P al \<Longrightarrow> P (k, v) \<Longrightarrow> list_all P (AList.update k v al)"
  by (induction al) auto

lemma first_attempts_only_cong:
  "attempt_timers s' = attempt_timers s \<Longrightarrow> connectionAttempts s' = connectionAttempts s \<Longrightarrow>
   first_attempts_only s' = first_attempts_only s"
  by (simp add: first_attempts_only_def)

lemma attempts_of_mount: "attempts_of cm_mount_env p = 0"
  by (simp add: attempts_of_def cm_mount_env_def)

lemma first_attempts_only_attemptConnection:
  "first_attempts_only s \<Longrightarrow> first_attempts_only (attemptConnection cm_mount_env p s)"
  by (simp add: attemptConnection_def attempts_of_mount maxAttempts_def backoff_delay_def
      first_attempts_only_def)

lemma first_attempts_only_discover:
  "first_attempts_only s \<Longrightarrow> first_attempts_only (discover cm_mount_env p data s)"
proof -
  assume ok: "first_attempts_only s"
  have "first_attempts_only (s\<lparr> discoveredPeers := insert p (discoveredPeers s),
           cm_effects := cm_effects s @ [PeerDiscovered p data] \<rparr>) = first_attempts_only s"
    by (rule first_attempts_only_cong) simp_all
  with ok show ?thesis
    unfolding discover_def by (simp add: first_attempts_only_attemptConnection)
qed

lemma first_attempts_only_scan_local:
  "first_attempts_only s \<Longrightarrow> first_attempts_only (snd (scan_local cm_mount_env my now st s))"
  by (induction cm_mount_env my now st s rule: scan_local.induct)
     (simp_all add: first_attempts_only_discover split: stored.split option.split)

lemma first_attempts_only_scan_session:
  "first_attempts_only s \<Longrightarrow> first_attempts_only (snd (scan_session cm_mount_env my st s))"
  by (induction cm_mount_env my st s rule: scan_session.induct)
     (simp_all add: first_attempts_only_discover split: stored.split option.split)

lemma first_attempts_only_discoverPeers:
  assumes "first_attempts_only s"
  shows "first_attempts_only (discoverPeers cm_mount_env my now s)"
proof (cases "my = []")
  case True
  then show ?thesis using assms by (simp add: discoverPeers_def)
next
  case False
  obtain ok s1 where sl: "scan_local cm_mount_env my now (localStorage s) s = (ok, s1)"
    by (cases "scan_local cm_mount_env my now (localStorage s) s")
  from assms first_attempts_only_scan_local [of s my now "localStorage s"] sl
  have s1: "first_attempts_only s1" by simp
  show ?thesis
  proof (cases ok)
    case True
    with False sl s1 show ?thesis
      by (simp add: discoverPeers_def first_attempts_only_scan_session)
  next
    case False
    with \<open>my \<noteq> []\<close> sl s1 show ?thesis by (simp add: discoverPeers_def)
  qed
qed

lemma first_attempts_only_announcePresence:
  "first_attempts_only (announcePresence my now s) = first_attempts_only s"
  by (rule first_attempts_only_cong) (simp_all add: announcePresence_def Let_def)

lemma first_attempts_only_cleanupOldPeers:
  "first_attempts_only (cleanupOldPeers now s) = first_attempts_only s"
  by (rule first_attempts_only_cong)
     (simp_all add: cleanupOldPeers_def Let_def split: prod.split bool.split)

lemma first_attempts_only_heartbeat:
  "first_attempts_only s \<Longrightarrow> first_attempts_only (heartbeat e peers my s)"
  by (simp add: heartbeat_def first_attempts_only_def Let_def)

lemma first_attempts_only_timeout:
  assumes ok: "first_attempts_only s" and k: "k < length (attempt_timers s)"
  shows "first_attempts_only
           (attempt_callback (attempt_timers s ! k) ref_set
              (s\<lparr> attempt_timers := take k (attempt_timers s) @ drop (Suc k) (attempt_timers s) \<rparr>))"
proof -
  from ok have tms: "list_all (\<lambda>tm. at_attempts tm = 0 \<and> at_delay tm = 1000) (attempt_timers s)"
    and cnt: "list_all (\<lambda>(p, n). n = 1) (connectionAttempts s)"
    by (simp_all add: first_attempts_only_def)
  from tms k have zero: "at_attempts (attempt_timers s ! k) = 0"
    by (simp add: list_all_length)
  have rest: "list_all (\<lambda>tm. at_attempts tm = 0 \<and> at_delay tm = 1000)
                (take k (attempt_timers s) @ drop (Suc k) (attempt_timers s))"
    using tms by (auto simp: list_all_iff dest: in_set_takeD in_set_dropD)
  have upd: "list_all (\<lambda>(p, n). n = 1)
               (AList.update (at_peer (attempt_timers s ! k)) (Suc 0) (connectionAttempts s))"
    using cnt by (rule list_all_update) simp
  show ?thesis
    using rest upd zero by (simp add: attempt_callback_def first_attempts_only_def Let_def)
qed

lemma first_attempts_only_app_fire:
  "first_attempts_only (app_cm a) \<Longrightarrow> first_attempts_only (app_cm (app_fire ev a))"
  by (cases ev)
     (simp_all add: first_attempts_only_discoverPeers first_attempts_only_announcePresence
        first_attempts_only_cleanupOldPeers first_attempts_only_heartbeat
        first_attempts_only_timeout Let_def)

lemma first_attempts_only_app_run:
  "first_attempts_only (app_cm a) \<Longrightarrow> first_attempts_only (app_cm (app_run evs a))"
  by (induction evs arbitrary: a) (simp_all add: first_attempts_only_app_fire)

lemma first_attempts_only_reachable:
  "first_attempts_only (app_cm (app_run evs (app_initial ls ss)))"
  by (rule first_attempts_only_app_run)
     (simp add: app_initial_def cm_initial_def first_attempts_only_def)

section \<open>Flood routing\<close>

text \<open>
  Claim C1 (at-most-once delivery). The data handler tests the id against the
  \<^verbatim>\<open>messageHistory\<close> of the render that installed it, not against the set the ids are
  inserted into. In the scenario, \<open>B\<close> has delivered \<open>m1\<close> from \<open>A\<close> and the id is in the
  seen set; the copy relayed by \<open>C\<close> carries the same id and is delivered to the consumer a
  second time (and forwarded again). In general the decision does not depend on the seen
  set of the state at all: \<open>delivery_ignores_current_history\<close>.
\<close>

theorem relayed_duplicate_is_delivered_again:
  "msg_id m1_via_C = msg_id m1 \<and>
   msg_id m1 \<in> messageHistory (run (relay_setup @ [ConnData 0 (WEnvelope m1)]) initial) \<and>
   deliveries (effects (run (relay_setup @
       [ConnData 0 (WEnvelope m1), ConnData 1 (WEnvelope m1_via_C)]) initial)) = [''m1'', ''m1'']"
  by code_simp




text \<open>
  Claim C8 (duplicate-free routes). \<^verbatim>\<open>broadcastMessage\<close> sends the envelope with the route
  \<open>[self]\<close>. A forwarding node sends only when its own id is not in the received route, and
  then with the received route extended by its own id: a received route without duplicates
  stays without duplicates.
\<close>

theorem route_stays_duplicate_free:
  "(\<forall>c m'. Send c m' \<in> set (emitted s (broadcastMessage m s)) \<longrightarrow> route m' = Some [self_id s])
   \<and> (distinct (route_list m) \<longrightarrow>
        (\<forall>c m'. Send c m' \<in> set (emitted s (conn_on_data e conn (WEnvelope m) s)) \<longrightarrow>
           self_id s \<notin> set (route_list m) \<and>
           route m' = Some (route_list m @ [self_id s]) \<and>
           distinct (route_list m')))"
proof (intro conjI impI allI)
  fix c m'
  assume "Send c m' \<in> set (emitted s (broadcastMessage m s))"
  then show "route m' = Some [self_id s]"
    by (auto simp: broadcastMessage_def emitted_def Send_in_broadcast_sends)
next
  fix c m'
  assume d: "distinct (route_list m)"
    and snd: "Send c m' \<in> set (emitted s (conn_on_data e conn (WEnvelope m) s))"
  from emitted_conn_on_data [of s e conn "WEnvelope m"] snd
  have fwd: "self_id s \<notin> set (route_list m)"
    and m': "m' = m\<lparr> route := Some (route_list m @ [self_id s]) \<rparr>"
    by (auto simp: Send_in_forward)
  show "self_id s \<notin> set (route_list m)" by (rule fwd)
  show "route m' = Some (route_list m @ [self_id s])" by (simp add: m')
  show "distinct (route_list m')" using d fwd by (simp add: m' route_list_def)
qed

text \<open>
  \<open>B\<close> originates with the route \<open>[B]\<close>, and forwards the envelope of \<open>A\<close> with the route
  \<open>[A, B]\<close>.
\<close>

theorem route_stays_duplicate_free_witness:
  "Send conn_A (m1\<lparr> route := Some [''B''] \<rparr>) \<in> set (emitted relay_B (broadcastMessage m1 relay_B)) \<and>
   Send conn_C (m1\<lparr> route := Some [''A'', ''B''] \<rparr>)
     \<in> set (emitted relay_B (conn_on_data mount_env conn_A (WEnvelope m1) relay_B)) \<and>
   distinct (route_list (m1\<lparr> route := Some [''A'', ''B''] \<rparr>))"
  using route_stays_duplicate_free [of relay_B m1 mount_env conn_A]
  by (simp add: relay_B_eval broadcastMessage_def conn_on_data_def emitted_def emit_def
      self_id_def route_list_def m1_def conn_A_def conn_C_def mount_env_def render_def
      initial_def Let_def)

text \<open>
  Claim C10 (malformed data). A datum that is null, is not an object, or has no truthy
  \<^verbatim>\<open>message\<close> leaves the component as it was: no consumer call, no change of the seen
  set, nothing sent.
\<close>

theorem non_message_data_is_ignored:
  "d = WNull \<or> \<not> typeof_object d \<or> \<not> message_truthy d \<Longrightarrow> conn_on_data e conn d s = s"
  by (auto simp: conn_on_data_def)

text \<open>
  Null, a string, an object without a message and an envelope with an empty message.
\<close>

theorem non_message_data_is_ignored_witness:
  "conn_on_data mount_env conn_A WNull relay_B = relay_B \<and>
   conn_on_data mount_env conn_A (WStr ''help'') relay_B = relay_B \<and>
   conn_on_data mount_env conn_A WPlainObject relay_B = relay_B \<and>
   conn_on_data mount_env conn_A (WEnvelope (m1\<lparr> message := [] \<rparr>)) relay_B = relay_B"
  using non_message_data_is_ignored [of WNull mount_env conn_A relay_B]
    non_message_data_is_ignored [of "WStr ''help''" mount_env conn_A relay_B]
    non_message_data_is_ignored [of WPlainObject mount_env conn_A relay_B]
    non_message_data_is_ignored [of "WEnvelope (m1\<lparr> message := [] \<rparr>)" mount_env conn_A relay_B]
  by simp


section \<open>Connection table notifications\<close>

text \<open>
  Claim C9 (every table mutation reports topology and peers). The error handler deletes the
  table entry and reports the peer list, but does not call \<^verbatim>\<open>updateTopology\<close>; the close
  handler, on the same state, reports both. (The deletion in the error handler is new in
  the current revision.)
\<close>

theorem connection_error_skips_topology:
  "connectionsRef relay_B = [(''A'', conn_A), (''C'', conn_C)] \<and>
   connectionsRef (fire (ConnError 1) relay_B) = [(''A'', conn_A)] \<and>
   emitted relay_B (fire (ConnError 1) relay_B) = [PeersChange [''A''], ConnectionChange True] \<and>
   emitted relay_B (fire (ConnClose 1) relay_B) =
     [PeersChange [''A''], ConnectionChange True,
      TopologyChange \<lparr> nodes = [(''B'', [''A''])], edges = [(''B'', ''A'', 1)] \<rparr>]"
  by code_simp

section \<open>Reconnection and backoff\<close>

text \<open>
  Claim C4 (backoff). \<^verbatim>\<open>attemptConnection\<close> is written to let the delay grow with the
  attempt counter and to stop at \<^verbatim>\<open>maxAttempts\<close>, but it is reached only from closures of the
  manager's first render, whose \<^verbatim>\<open>connectionAttempts\<close> is the empty map: the counter it
  reads is always 0. In the scenario \<open>X\<close> is advertised and cannot be connected to. Every
  scan schedules the attempt with the base delay of 1000 ms, the first as well as the
  seventh; six attempts have fired, twice the cap, each calling \<^verbatim>\<open>connectToPeer\<close>; and the
  stored counter is 1, below the cap. This holds in every state the application reaches
  (\<open>first_attempts_only_reachable\<close>). The retry after a lost link has no counter and no cap
  by construction (\<open>reconnection_has_no_cap\<close>).
\<close>

theorem attempts_never_back_off:
  "maxAttempts = 3 \<and>
   map (\<lambda>tm. (at_peer tm, at_attempts tm, at_delay tm))
     (attempt_timers (app_cm (app_run (take 2 six_scans) (app_initial registry_X []))))
     = [(''X'', 0, 1000)] \<and>
   map (\<lambda>tm. (at_peer tm, at_attempts tm, at_delay tm))
     (attempt_timers (app_cm (app_run six_scans (app_initial registry_X []))))
     = [(''X'', 0, 1000)] \<and>
   length (filter (\<lambda>x. x = CallConnectToPeerRef ''X'')
     (cm_effects (app_cm (app_run six_scans (app_initial registry_X []))))) = 6 \<and>
   length (filter (\<lambda>x. x = Connect ''X'')
     (effects (app_mesh (app_run six_scans (app_initial registry_X []))))) = 6 \<and>
   map_of (connectionAttempts (app_cm (app_run six_scans (app_initial registry_X [])))) ''X''
     = Some 1"
  by code_simp

text \<open>
  Claim C5 (one timer per peer), as amended. In every state the application reaches there
  is at most one pending reconnection timeout (the timeouts of \<^verbatim>\<open>scheduleReconnection\<close>) per
  peer; \<^verbatim>\<open>scheduleReconnection\<close> changes nothing when the peer has one; after the open
  handler has run for a peer, that peer has no pending reconnection timeout and no entry in
  \<^verbatim>\<open>reconnectTimeoutRef\<close>. No event of the mesh component, the open event included, changes
  the state of the connection manager: its attempt counters and the pending timeouts of
  \<^verbatim>\<open>attemptConnection\<close> stay as they are.
\<close>

theorem one_retry_timer_per_peer:
  assumes "a = app_run evs (app_initial ls ss)"
  shows "distinct (map timer_peer (timers (app_mesh a)))
     \<and> (peerId \<in> timer_peer ` set (timers (app_mesh a)) \<longrightarrow>
          scheduleReconnection e peerId (app_mesh a) = app_mesh a)
     \<and> conn_peer c \<notin> timer_peer ` set (timers (conn_on_open e c (app_mesh a)))
     \<and> conn_peer c \<notin> fst ` set (reconnectTimeoutRef (conn_on_open e c (app_mesh a)))
     \<and> app_cm (app_fire (Mesh ev) a) = app_cm a"
proof -
  have ok: "timers_ok (app_mesh a)"
    unfolding assms by (rule timers_ok_reachable)
  have "distinct (map timer_peer (timers (app_mesh a)))"
    using ok by (rule timers_ok_imp_one_per_peer)
  moreover have "peerId \<in> timer_peer ` set (timers (app_mesh a)) \<longrightarrow>
          scheduleReconnection e peerId (app_mesh a) = app_mesh a"
    using ok by (simp add: scheduleReconnection_noop)
  moreover have "conn_peer c \<notin> timer_peer ` set (timers (conn_on_open e c (app_mesh a)))"
    using ok by (rule conn_on_open_cancels)
  moreover have "conn_peer c \<notin> fst ` set (reconnectTimeoutRef (conn_on_open e c (app_mesh a)))"
    using ok by (rule conn_on_open_cancels)
  moreover have "app_cm (app_fire (Mesh ev) a) = app_cm a"
    by simp
  ultimately show ?thesis by blast
qed

text \<open>
  After the link to \<open>X\<close> is lost there is one timeout, for \<open>X\<close>; scheduling again changes
  nothing, and an open event for \<open>X\<close> leaves no timeout and no map entry.
\<close>

theorem one_retry_timer_per_peer_witness:
  "map timer_peer (timers (app_mesh (app_run lost_link (app_initial [] [])))) = [''X''] \<and>
   scheduleReconnection mount_env ''X'' (app_mesh (app_run lost_link (app_initial [] [])))
     = app_mesh (app_run lost_link (app_initial [] [])) \<and>
   timers (conn_on_open mount_env conn_X (app_mesh (app_run lost_link (app_initial [] [])))) = [] \<and>
   reconnectTimeoutRef (conn_on_open mount_env conn_X (app_mesh (app_run lost_link (app_initial [] []))))
     = []"
proof -
  have t: "map timer_peer (timers (app_mesh (app_run lost_link (app_initial [] [])))) = [''X'']"
    by code_simp
  have o: "timers (conn_on_open mount_env conn_X (app_mesh (app_run lost_link (app_initial [] [])))) = []"
    "reconnectTimeoutRef (conn_on_open mount_env conn_X (app_mesh (app_run lost_link (app_initial [] [])))) = []"
    by code_simp+
  have "''X'' \<in> timer_peer ` set (timers (app_mesh (app_run lost_link (app_initial [] []))))"
    using t by (metis image_set list.set_intros(1))
  with one_retry_timer_per_peer [OF refl, where evs = lost_link and ls = "[]" and ss = "[]"
      and peerId = "''X''" and e = mount_env and c = conn_X] t o
  show ?thesis by simp
qed

text \<open>
  The timeouts of \<^verbatim>\<open>attemptConnection\<close> are a mechanism of their own: one of them can be
  pending for a peer beside that peer's reconnection timeout, and the map
  \<^verbatim>\<open>reconnectTimeoutRef\<close> does not know it.
\<close>

lemma attempt_timeout_beside_reconnection_timeout:
  "map timer_peer (timers (app_mesh (app_run lost_and_rediscovered (app_initial registry_X []))))
     = [''X''] \<and>
   map at_peer (attempt_timers (app_cm (app_run lost_and_rediscovered (app_initial registry_X []))))
     = [''X'']"
  by code_simp

text \<open>
  The claim as stated fails on the counter: the attempt that connects to the discovered
  peer \<open>X\<close> sets the counter of \<open>X\<close> to 1, the connection opens and is entered in the table,
  and the counter is still 1.
\<close>

theorem open_leaves_attempt_counter:
  "map_of (connectionAttempts (app_cm
      (app_run (butlast discovered_and_opened) (app_initial registry_X [])))) ''X'' = Some 1 \<and>
   map_of (connectionsRef (app_mesh
      (app_run discovered_and_opened (app_initial registry_X [])))) ''X'' = Some conn_X \<and>
   map_of (connectionAttempts (app_cm
      (app_run discovered_and_opened (app_initial registry_X [])))) ''X'' = Some 1"
  by code_simp

section \<open>Connecting\<close>

text \<open>
  Claim C6 (connect guard), as amended. \<^verbatim>\<open>connectToPeer\<close> asks the transport for a
  connection exactly when the PeerJS object exists, the peer id is not its own and the
  \<^verbatim>\<open>connectionState\<close> of the calling render is \<^verbatim>\<open>'ready'\<close>; the connection table is not
  consulted. In every other case, and so for the own id, nothing is requested and the state
  is unchanged.
\<close>

theorem connectToPeer_guard:
  "(not_self s peerId \<and> env_connectionState e = Ready \<longrightarrow>
      emitted s (connectToPeer e peerId s) = [Connect peerId] \<and>
      installed (connectToPeer e peerId s) = installed s @ [(peerId, e)])
   \<and> (\<not> (not_self s peerId \<and> env_connectionState e = Ready) \<longrightarrow> connectToPeer e peerId s = s)
   \<and> (peerRef s = Some (Peer (Some peerId)) \<longrightarrow> connectToPeer e peerId s = s)"
  by (simp add: connectToPeer_def setupConnection_def emit_def emitted_def not_self_def)

text \<open>
  In the state where \<open>X\<close> is already connected and the state is \<^verbatim>\<open>'ready'\<close> again, the call
  for \<open>X\<close> requests a connection and the call for the own id \<open>A\<close> does nothing.
\<close>

theorem connectToPeer_guard_witness:
  "not_self (run (butlast connect_again) initial) ''X'' \<and>
   env_connectionState (render (run (butlast connect_again) initial)) = Ready \<and>
   emitted (run (butlast connect_again) initial)
     (connectToPeer (render (run (butlast connect_again) initial)) ''X''
        (run (butlast connect_again) initial)) = [Connect ''X''] \<and>
   peerRef (run (butlast connect_again) initial) = Some (Peer (Some ''A'')) \<and>
   connectToPeer (render (run (butlast connect_again) initial)) ''A''
     (run (butlast connect_again) initial) = run (butlast connect_again) initial"
proof -
  have h: "not_self (run (butlast connect_again) initial) ''X''"
    "env_connectionState (render (run (butlast connect_again) initial)) = Ready"
    "peerRef (run (butlast connect_again) initial) = Some (Peer (Some ''A''))"
    by code_simp+
  from h connectToPeer_guard [where s = "run (butlast connect_again) initial"
      and peerId = "''X''" and e = "render (run (butlast connect_again) initial)"]
    connectToPeer_guard [where s = "run (butlast connect_again) initial"
      and peerId = "''A''" and e = "render (run (butlast connect_again) initial)"]
  show ?thesis by simp
qed

text \<open>
  The claim as stated fails on the existing connection: \<open>X\<close> is in the connection table,
  and the call still asks the transport for a connection to \<open>X\<close>.
\<close>

theorem connect_requested_for_connected_peer:
  "map_of (connectionsRef (run (butlast connect_again) initial)) ''X'' = Some conn_X \<and>
   emitted (run (butlast connect_again) initial) (run connect_again initial) = [Connect ''X'']"
  by code_simp

section \<open>Originating\<close>

text \<open>
  Claim C3 (originating without peers), as amended. With an empty peer list, or without the
  mesh ref, \<^verbatim>\<open>sendEmergencyMessage\<close> changes nothing: the message is not added to the local
  list and \<^verbatim>\<open>broadcastMessage\<close> is not called. With a non-empty peer list the new message is
  put in front of the local list once and broadcast. \<^verbatim>\<open>broadcastMessage\<close> changes nothing
  when no connection in the table is open.
\<close>

theorem sendEmergencyMessage_guard:
  "(connectedPeers ix = [] \<longrightarrow>
      sendEmergencyMessage cl now messageText isCustom (ix, Some mesh) = (ix, Some mesh))
   \<and> sendEmergencyMessage cl now messageText isCustom (ix, None) = (ix, None)
   \<and> (connectedPeers ix \<noteq> [] \<longrightarrow>
        messages (fst (sendEmergencyMessage cl now messageText isCustom (ix, Some mesh)))
          = new_message cl now messageText ix # messages ix \<and>
        snd (sendEmergencyMessage cl now messageText isCustom (ix, Some mesh))
          = Some (broadcastMessage (new_message cl now messageText ix) mesh))
   \<and> (list_all (\<lambda>c. \<not> conn_open c) (map snd (connectionsRef mesh)) \<longrightarrow>
        broadcastMessage m mesh = mesh)"
  by (simp add: sendEmergencyMessage_def Let_def broadcastMessage_def broadcast_sends_none)

text \<open>
  Without peers nothing happens. With \<open>X\<close> in the peer list and its connection no longer
  open, the message is recorded once and nothing is sent.
\<close>

theorem sendEmergencyMessage_guard_witness:
  "sendEmergencyMessage (\<lambda>t. HIGH) 1723 ''fire'' True (index_alone, Some mesh_alone)
     = (index_alone, Some mesh_alone) \<and>
   messages (fst (sendEmergencyMessage (\<lambda>t. HIGH) 1723 ''fire'' True
       (index_alone\<lparr> connectedPeers := [''X''] \<rparr>, Some mesh_closing)))
     = [\<lparr> msg_id = ''1723'', message = ''fire'', urgency = HIGH, timestamp = 1723,
          location = None, senderId = ''A'', route = None \<rparr>] \<and>
   snd (sendEmergencyMessage (\<lambda>t. HIGH) 1723 ''fire'' True
       (index_alone\<lparr> connectedPeers := [''X''] \<rparr>, Some mesh_closing)) = Some mesh_closing"
proof -
  have d: "decimal 1723 = ''1723''" by code_simp
  have c: "list_all (\<lambda>c. \<not> conn_open c) (map snd (connectionsRef mesh_closing))"
    by (simp add: mesh_closing_def)
  from c sendEmergencyMessage_guard [where ix = index_alone and cl = "\<lambda>t. HIGH" and now = 1723
      and messageText = "''fire''" and isCustom = True and mesh = mesh_alone]
    sendEmergencyMessage_guard [where ix = "index_alone\<lparr> connectedPeers := [''X''] \<rparr>"
      and cl = "\<lambda>t. HIGH" and now = 1723 and messageText = "''fire''" and isCustom = True
      and mesh = mesh_closing
      and m = "new_message (\<lambda>t. HIGH) 1723 ''fire'' (index_alone\<lparr> connectedPeers := [''X''] \<rparr>)"]
  show ?thesis by (simp add: index_alone_def new_message_def d)
qed

text \<open>
  The claim as stated fails when there is no connection at all: the guard returns before
  the message is added, and the local list stays empty.
\<close>

theorem message_without_peers_is_not_recorded:
  "connectionsRef mesh_alone = [] \<and>
   messages (fst (sendEmergencyMessage (\<lambda>t. HIGH) 1723 ''fire'' False
      (index_alone, Some mesh_alone))) = []"
  by (simp add: sendEmergencyMessage_def index_alone_def mesh_alone_def peer_on_open_def emit_def
      initial_def)

section \<open>Presence expiry\<close>

text \<open>
  Claim C7 (presence expiry). The scan of \<^verbatim>\<open>sessionStorage\<close> has no age test. A record
  that is 100 seconds old is passed over in \<^verbatim>\<open>localStorage\<close>, but the same record in
  \<^verbatim>\<open>sessionStorage\<close> is reported as discovered and a connection attempt is scheduled for it.
  The sweep removes the record from both storages.
\<close>

theorem stale_session_record_is_discovered:
  "cm_effects (discoverPeers cm_mount_env ''A'' 100000 (cm_initial stale_local_X stale_X))
     = [PeerDiscovered ''X'' \<lparr> p_peerId = Some ''X'', p_timestamp = Some 0 \<rparr>] \<and>
   map at_peer (attempt_timers
       (discoverPeers cm_mount_env ''A'' 100000 (cm_initial stale_local_X stale_X))) = [''X''] \<and>
   cm_effects (discoverPeers cm_mount_env ''A'' 100000 (cm_initial stale_local_X [])) = [] \<and>
   localStorage (cleanupOldPeers 100000 (cm_initial stale_local_X stale_X)) = [] \<and>
   sessionStorage (cleanupOldPeers 100000 (cm_initial stale_local_X stale_X)) = []"
  by code_simp

end
